theory Spec2Isabelle
  imports Main "HOL-Library.Multiset" "HOL-Library.Sublist"
begin

section \<open>Strings\<close>

text \<open>
  A JavaScript string is a sequence of UTF-16 code units. A code unit is modelled as a
  natural number (every real one is below \<open>0x10000\<close>), so \<open>length\<close> counts what
  \<^verbatim>\<open>String.prototype.length\<close> and \<^verbatim>\<open>substring\<close> count. \<open>str\<close> embeds an ASCII
  literal of the source.
\<close>

type_synonym jsstring = "nat list"

definition str :: "string \<Rightarrow> jsstring" where
  "str s = map of_char s"

definition ind :: "nat \<Rightarrow> jsstring" where
  \<comment> \<open>a line break of a template literal followed by \<open>k\<close> spaces of indentation\<close>
  "ind k = 0x0A # replicate k 0x20"

definition is_space :: "nat \<Rightarrow> bool" where
  \<comment> \<open>\<^verbatim>\<open>\s\<close> of a regular expression and the characters \<^verbatim>\<open>trim\<close> removes:
      ECMAScript WhiteSpace and LineTerminator\<close>
  "is_space c \<longleftrightarrow>
     c \<in> set [0x09, 0x0A, 0x0B, 0x0C, 0x0D, 0x20, 0xA0, 0x1680, 0x2028, 0x2029, 0x202F,
              0x205F, 0x3000, 0xFEFF]
     \<or> (0x2000 \<le> c \<and> c \<le> 0x200A)"

definition is_word :: "nat \<Rightarrow> bool" where
  \<comment> \<open>\<^verbatim>\<open>\w\<close> without the \<^verbatim>\<open>u\<close> and \<^verbatim>\<open>i\<close> flags: \<^verbatim>\<open>[A-Za-z0-9_]\<close>\<close>
  "is_word c \<longleftrightarrow>
     (0x30 \<le> c \<and> c \<le> 0x39) \<or> (0x41 \<le> c \<and> c \<le> 0x5A) \<or> c = 0x5F \<or> (0x61 \<le> c \<and> c \<le> 0x7A)"

definition is_az :: "nat \<Rightarrow> bool" where
  \<comment> \<open>the character class \<^verbatim>\<open>[a-z]\<close>\<close>
  "is_az c \<longleftrightarrow> 0x61 \<le> c \<and> c \<le> 0x7A"

definition trim :: "jsstring \<Rightarrow> jsstring" where
  "trim s = rev (dropWhile is_space (rev (dropWhile is_space s)))"

definition lower_unit :: "nat \<Rightarrow> jsstring" where
  \<comment> \<open>Lower-casing of one code unit. Exact for \<open>U+0000\<close> to \<open>U+00FF\<close> and for the two
      characters outside ASCII whose lower-case form contains an ASCII letter
      (\<open>U+0130\<close>, which becomes \<open>i\<close> and \<open>U+0307\<close>, and the Kelvin sign \<open>U+212A\<close>, which
      becomes \<open>k\<close>). Any other code unit above \<open>U+00FF\<close> is left as it is: neither it nor
      its lower-case form is an ASCII character or white space, which is all that
      \<open>slugify\<close> and \<open>extractKeywords\<close> look at.\<close>
  "lower_unit c =
     (if (0x41 \<le> c \<and> c \<le> 0x5A) \<or> (0xC0 \<le> c \<and> c \<le> 0xDE \<and> c \<noteq> 0xD7) then [c + 0x20]
      else if c = 0x130 then [0x69, 0x307]
      else if c = 0x212A then [0x6B]
      else [c])"

definition toLowerCase :: "jsstring \<Rightarrow> jsstring" where
  "toLowerCase s = concat (map lower_unit s)"

definition String_of :: "jsstring option \<Rightarrow> jsstring" where
  \<comment> \<open>\<^verbatim>\<open>String(v)\<close> for a value that is a string or \<^verbatim>\<open>undefined\<close>\<close>
  "String_of v = (case v of None \<Rightarrow> str ''undefined'' | Some s \<Rightarrow> s)"

definition truthy_string :: "jsstring option \<Rightarrow> bool" where
  \<comment> \<open>truthiness of a value that is a string or \<^verbatim>\<open>undefined\<close>\<close>
  "truthy_string v = (case v of None \<Rightarrow> False | Some s \<Rightarrow> s \<noteq> [])"


section \<open>The platform\<close>

text \<open>
  The functions of the browser that the two classes call, taken as parameters. Time values
  are milliseconds since the epoch; a \<^verbatim>\<open>Date\<close> object is its time value, \<open>None\<close> for an
  Invalid Date (time value \<^verbatim>\<open>NaN\<close>).
\<close>

type_synonym js_date = "int option"

datatype error = TypeError | RangeError

record enclosure =
  enc_link :: "jsstring option"

record item =
  i_title :: "jsstring option"
  i_link :: "jsstring option"
  i_description :: "jsstring option"
  i_pubDate :: "jsstring option"
  i_author :: "jsstring option"
  i_thumbnail :: "jsstring option"
  i_enclosure :: "enclosure option"
  i_categories :: "jsstring list option"

record feed_info =
  f_title :: "jsstring option"

record feed_response =
  items :: "item list option"
  feed :: "feed_info option"

datatype body = Malformed | JsonNull | JsonFeed feed_response

datatype fetch_outcome = NetworkError | Response nat body

datatype json =
  JNull | JBool bool | JNum int | JStr jsstring | JArr "json list" | JObj "(jsstring \<times> json) list"

record browser =
  fetch :: "jsstring \<Rightarrow> fetch_outcome"
    \<comment> \<open>the outcome of \<^verbatim>\<open>fetch(url)\<close> followed by \<^verbatim>\<open>response.json()\<close>\<close>
  encodeURIComponent :: "jsstring \<Rightarrow> jsstring option"
    \<comment> \<open>\<open>None\<close>: URIError (a lone surrogate)\<close>
  Date_parse :: "jsstring \<Rightarrow> js_date"
    \<comment> \<open>the time value of \<^verbatim>\<open>new Date(s)\<close>\<close>
  toISOString :: "int \<Rightarrow> jsstring"
  toLocaleDateString :: "js_date \<Rightarrow> jsstring"
    \<comment> \<open>with locale \<^verbatim>\<open>en-US\<close> and the options of \<^verbatim>\<open>formatDate\<close>\<close>
  textContent :: "jsstring \<Rightarrow> jsstring"
    \<comment> \<open>\<^verbatim>\<open>textContent\<close> of a detached \<^verbatim>\<open>div\<close> whose \<^verbatim>\<open>innerHTML\<close> was set to the argument\<close>
  innerText :: "jsstring \<Rightarrow> jsstring"
  ToNumber :: "json \<Rightarrow> error + int option"
    \<comment> \<open>\<^verbatim>\<open>ToNumber\<close> of a string, array or object that \<^verbatim>\<open>JSON.parse\<close> returned;
        \<open>Inr None\<close> is \<^verbatim>\<open>NaN\<close>\<close>


section \<open>RSSFetcher\<close>

record rss_options =
  o_corsProxy :: "jsstring option"
  o_feeds :: "jsstring list option"
  o_maxArticles :: "nat option"
  o_updateInterval :: "int option"
  o_container :: "jsstring option"

record rss_fetcher =
  corsProxy :: jsstring
  feeds :: "jsstring list"
  maxArticles :: nat
  updateInterval :: int
  container :: jsstring

definition RSSFetcher :: "rss_options \<Rightarrow> rss_fetcher" where
  \<comment> \<open>the constructor: \<^verbatim>\<open>options.x || default\<close>; an empty array is truthy\<close>
  "RSSFetcher options =
     \<lparr> corsProxy = (if truthy_string (o_corsProxy options) then String_of (o_corsProxy options)
                     else str ''https://api.rss2json.com/v1/api.json?rss_url=''),
       feeds = (case o_feeds options of Some fs \<Rightarrow> fs
                | None \<Rightarrow> [str ''https://www.kali.org/rss.xml'',
                            str ''https://gbhackers.com/feed/'',
                            str ''https://www.bleepingcomputer.com/feed/'']),
       maxArticles = (case o_maxArticles options of Some n \<Rightarrow> (if n = 0 then 10 else n) | None \<Rightarrow> 10),
       updateInterval = (case o_updateInterval options of Some n \<Rightarrow> (if n = 0 then 3600000 else n)
                         | None \<Rightarrow> 3600000),
       container = (if truthy_string (o_container options) then String_of (o_container options)
                    else str ''#news-feed'') \<rparr>"

subsection \<open>Fetching\<close>

definition ok :: "nat \<Rightarrow> bool" where
  \<comment> \<open>\<^verbatim>\<open>response.ok\<close>: a status from 200 to 299\<close>
  "ok status \<longleftrightarrow> 200 \<le> status \<and> status \<le> 299"

definition fetchFeed :: "browser \<Rightarrow> rss_fetcher \<Rightarrow> jsstring \<Rightarrow> feed_response option" where
  \<comment> \<open>\<open>None\<close> is the \<^verbatim>\<open>null\<close> that the \<^verbatim>\<open>catch\<close> block returns, and the \<^verbatim>\<open>null\<close> of a
      body that is the JSON text \<^verbatim>\<open>null\<close>\<close>
  "fetchFeed B F feedUrl =
     (case encodeURIComponent B feedUrl of
        None \<Rightarrow> None
      | Some q \<Rightarrow>
          (case fetch B (corsProxy F @ q) of
             NetworkError \<Rightarrow> None
           | Response status b \<Rightarrow>
               if \<not> ok status then None
               else (case b of Malformed \<Rightarrow> None | JsonNull \<Rightarrow> None | JsonFeed data \<Rightarrow> Some data)))"

definition fetchAllFeeds :: "browser \<Rightarrow> rss_fetcher \<Rightarrow> feed_response list" where
  \<comment> \<open>\<^verbatim>\<open>Promise.all\<close> keeps the order of \<open>feeds\<close>; the outcome of a request is a function
      of its URL\<close>
  "fetchAllFeeds B F = [data. Some data \<leftarrow> map (fetchFeed B F) (feeds F)]"

subsection \<open>Articles\<close>

record article =
  title :: jsstring
  link :: "jsstring option"
  description :: jsstring
  pubDate :: js_date
  author :: jsstring
  thumbnail :: jsstring
  categories :: "jsstring list"
  source :: jsstring

definition cleanText :: "browser \<Rightarrow> jsstring \<Rightarrow> jsstring" where
  \<comment> \<open>\<^verbatim>\<open>temp.textContent || temp.innerText || ''\<close> after \<^verbatim>\<open>temp.innerHTML = text\<close>: the text
      of the markup, as the parser of the browser reads it\<close>
  "cleanText B text =
     (if textContent B text \<noteq> [] then textContent B text
      else if innerText B text \<noteq> [] then innerText B text
      else [])"

definition sanitizeText :: "browser \<Rightarrow> jsstring option \<Rightarrow> jsstring" where
  "sanitizeText B text =
     (if \<not> truthy_string text then []
      else take 200 (trim (cleanText B (String_of text))))"

definition new_Date :: "browser \<Rightarrow> jsstring option \<Rightarrow> js_date" where
  \<comment> \<open>\<^verbatim>\<open>new Date(undefined)\<close> is an Invalid Date\<close>
  "new_Date B v = (case v of None \<Rightarrow> None | Some s \<Rightarrow> Date_parse B s)"

definition enclosure_link :: "item \<Rightarrow> jsstring option" where
  \<comment> \<open>\<^verbatim>\<open>item.enclosure?.link\<close>\<close>
  "enclosure_link it = (case i_enclosure it of None \<Rightarrow> None | Some e \<Rightarrow> enc_link e)"

definition item_thumbnail :: "item \<Rightarrow> jsstring" where
  \<comment> \<open>\<^verbatim>\<open>item.thumbnail || item.enclosure?.link || ''\<close>\<close>
  "item_thumbnail it =
     (if truthy_string (i_thumbnail it) then String_of (i_thumbnail it)
      else if truthy_string (enclosure_link it) then String_of (enclosure_link it)
      else [])"

definition feed_title :: "feed_response \<Rightarrow> jsstring option" where
  \<comment> \<open>\<^verbatim>\<open>feedData.feed?.title\<close>\<close>
  "feed_title feedData = (case feed feedData of None \<Rightarrow> None | Some f \<Rightarrow> f_title f)"

definition feed_source :: "feed_response \<Rightarrow> jsstring" where
  \<comment> \<open>\<^verbatim>\<open>feedData.feed?.title || 'External Source'\<close>\<close>
  "feed_source feedData =
     (if truthy_string (feed_title feedData) then String_of (feed_title feedData)
      else str ''External Source'')"

definition parse_item :: "browser \<Rightarrow> feed_response \<Rightarrow> item \<Rightarrow> article" where
  "parse_item B feedData it =
     \<lparr> title = sanitizeText B (i_title it),
       link = i_link it,
       description = sanitizeText B (i_description it),
       pubDate = new_Date B (i_pubDate it),
       author = (if truthy_string (i_author it) then String_of (i_author it) else str ''Unknown''),
       thumbnail = item_thumbnail it,
       categories = (case i_categories it of None \<Rightarrow> [] | Some cs \<Rightarrow> cs),
       source = feed_source feedData \<rparr>"

definition parseFeedItems :: "browser \<Rightarrow> feed_response option \<Rightarrow> article list" where
  "parseFeedItems B feedData =
     (case feedData of
        None \<Rightarrow> []
      | Some fd \<Rightarrow> (case items fd of None \<Rightarrow> [] | Some its \<Rightarrow> map (parse_item B fd) its))"

subsection \<open>Rendering\<close>

definition escape_unit :: "nat \<Rightarrow> jsstring" where
  \<comment> \<open>the replacement of one match of \<^verbatim>\<open>/[&<>"']/g\<close>; other code units stay\<close>
  \<open>escape_unit c =
     (if c = 0x26 then str ''&amp;''
      else if c = 0x3C then str ''&lt;''
      else if c = 0x3E then str ''&gt;''
      else if c = 0x22 then str ''&quot;''
      else if c = 0x27 then str ''&#039;''
      else [c])\<close>

definition escapeHtml :: "jsstring \<Rightarrow> jsstring" where
  "escapeHtml text = concat (map escape_unit text)"

definition formatDate :: "browser \<Rightarrow> js_date \<Rightarrow> jsstring" where
  "formatDate B date = toLocaleDateString B date"

text \<open>
  The template literal of \<open>generateArticleHTML\<close>, one piece per literal chunk and per
  interpolation. A \<open>FieldText\<close> piece is the text that an interpolation
  \<^verbatim>\<open>${this.escapeHtml(article.f)}\<close> contributes, a \<open>DateText\<close> piece what the two
  interpolations of \<open>pubDate\<close> contribute; the string the function returns is the
  concatenation of the pieces.
\<close>

datatype piece = Lit jsstring | FieldText jsstring | DateText jsstring

fun piece_text :: "piece \<Rightarrow> jsstring" where
  "piece_text (Lit s) = s"
| "piece_text (FieldText s) = s"
| "piece_text (DateText s) = s"

definition thumbnail_block :: "article \<Rightarrow> piece list" where
  \<open>thumbnail_block a =
     (if thumbnail a \<noteq> [] then
        [Lit (ind 20 @ str ''<div class="article-thumbnail">'' @ ind 24 @ str ''<img src="''),
         FieldText (escapeHtml (thumbnail a)),
         Lit (str ''" '' @ ind 29 @ str ''alt="''),
         FieldText (escapeHtml (title a)),
         Lit (str ''" '' @ ind 29 @ str ''loading="lazy"'' @ ind 29 @ str ''itemprop="image">''
              @ ind 20 @ str ''</div>'' @ ind 16)]
      else [])\<close>

definition author_block :: "article \<Rightarrow> piece list" where
  \<open>author_block a =
     (if author a \<noteq> str ''Unknown'' then
        [Lit (ind 32 @ str ''<span class="article-author" itemprop="author" itemscope itemtype="https://schema.org/Person">''
              @ ind 36 @ str ''<span itemprop="name">''),
         FieldText (escapeHtml (author a)),
         Lit (str ''</span>'' @ ind 32 @ str ''</span>'' @ ind 28)]
      else [])\<close>

definition category_tag :: "jsstring \<Rightarrow> piece list" where
  \<open>category_tag cat =
     [Lit (str ''<span class="category-tag" itemprop="keywords">''),
      FieldText (escapeHtml cat),
      Lit (str ''</span>'')]\<close>

definition categories_block :: "article \<Rightarrow> piece list" where
  \<open>categories_block a =
     (if length (categories a) > 0 then
        [Lit (ind 24 @ str ''<div class="article-categories">'' @ ind 28)]
        @ concat (map category_tag (take 3 (categories a)))
        @ [Lit (ind 24 @ str ''</div>'' @ ind 20)]
      else [])\<close>

definition article_pieces :: "browser \<Rightarrow> article \<Rightarrow> error + piece list" where
  \<comment> \<open>\<^verbatim>\<open>toISOString\<close> of an Invalid Date throws a RangeError\<close>
  \<open>article_pieces B a =
     (case pubDate a of
        None \<Rightarrow> Inl RangeError
      | Some t \<Rightarrow> Inr (
          [Lit (ind 12 @ str ''<article class="auto-post" itemscope itemtype="https://schema.org/Article">''
                @ ind 16)]
          @ thumbnail_block a
          @ [Lit (ind 16 @ str ''<div class="article-content">'' @ ind 20 @ str ''<header>''
                  @ ind 24 @ str ''<h3 itemprop="headline">'' @ ind 28 @ str ''<a href="''),
             FieldText (escapeHtml (String_of (link a))),
             Lit (str ''" '' @ ind 31 @ str ''target="_blank" '' @ ind 31
                  @ str ''rel="noopener noreferrer nofollow"'' @ ind 31 @ str ''itemprop="url">'' @ ind 32),
             FieldText (escapeHtml (title a)),
             Lit (ind 28 @ str ''</a>'' @ ind 24 @ str ''</h3>'' @ ind 24
                  @ str ''<div class="article-meta">'' @ ind 28 @ str ''<time datetime="''),
             DateText (toISOString B t),
             Lit (str ''" itemprop="datePublished">'' @ ind 32),
             DateText (formatDate B (pubDate a)),
             Lit (ind 28 @ str ''</time>'' @ ind 28
                  @ str ''<span class="article-source" itemprop="publisher" itemscope itemtype="https://schema.org/Organization">''
                  @ ind 32 @ str ''<span itemprop="name">''),
             FieldText (escapeHtml (source a)),
             Lit (str ''</span>'' @ ind 28 @ str ''</span>'' @ ind 28)]
          @ author_block a
          @ [Lit (ind 24 @ str ''</div>'' @ ind 20 @ str ''</header>'' @ ind 20
                  @ str ''<p class="article-description" itemprop="description">'' @ ind 24),
             FieldText (escapeHtml (description a)),
             Lit (ind 20 @ str ''</p>'' @ ind 20)]
          @ categories_block a
          @ [Lit (ind 20 @ str ''<a href="''),
             FieldText (escapeHtml (String_of (link a))),
             Lit (str ''" '' @ ind 23 @ str ''class="read-more" '' @ ind 23 @ str ''target="_blank" ''
                  @ ind 23 @ str ''rel="noopener noreferrer nofollow">'' @ ind 24
                  @ str ''Read More '' @ [0x2192] @ ind 20 @ str ''</a>'' @ ind 16 @ str ''</div>''
                  @ ind 12 @ str ''</article>'' @ ind 8)]))\<close>

fun collect :: "(error + 'a list) list \<Rightarrow> error + 'a list" where
  \<comment> \<open>\<^verbatim>\<open>map\<close> with a callback that may throw: the first exception ends the call\<close>
  "collect [] = Inr []"
| "collect (Inl e # rs) = Inl e"
| "collect (Inr x # rs) = (case collect rs of Inl e \<Rightarrow> Inl e | Inr xs \<Rightarrow> Inr (x @ xs))"

definition generateArticleHTML_pieces :: "browser \<Rightarrow> rss_fetcher \<Rightarrow> article list \<Rightarrow> error + piece list" where
  "generateArticleHTML_pieces B F articles = collect (map (article_pieces B) (take (maxArticles F) articles))"

definition generateArticleHTML :: "browser \<Rightarrow> rss_fetcher \<Rightarrow> article list \<Rightarrow> error + jsstring" where
  "generateArticleHTML B F articles =
     (case generateArticleHTML_pieces B F articles of
        Inl e \<Rightarrow> Inl e
      | Inr ps \<Rightarrow> Inr (concat (map piece_text ps)))"








subsection \<open>Sorting\<close>

text \<open>
  \<^verbatim>\<open>Array.prototype.sort(comparefn)\<close>. The comparator returns a number; \<open>None\<close> is
  \<^verbatim>\<open>NaN\<close>, which the sort reads as \<open>0\<close>. For a consistent comparator ECMAScript fixes
  the result: the stable sort, which the model computes by insertion. For a comparator
  that is not consistent (one that returns \<^verbatim>\<open>NaN\<close> for some pairs) ECMAScript leaves the
  order to the implementation; there the model gives what the engines give on the two
  arrays evaluated below (a dated article, one with an Invalid Date and a later one; the
  words of \<^verbatim>\<open>constructor beta beta\<close>), and is not meant for other arrays.
\<close>

definition comes_after :: "int option \<Rightarrow> bool" where
  \<comment> \<open>the comparator's result says that its first argument goes behind its second\<close>
  "comes_after v = (case v of None \<Rightarrow> False | Some n \<Rightarrow> 0 < n)"

fun js_insert :: "('a \<Rightarrow> 'a \<Rightarrow> int option) \<Rightarrow> 'a \<Rightarrow> 'a list \<Rightarrow> 'a list" where
  "js_insert cmp x [] = [x]"
| "js_insert cmp x (y # ys) = (if comes_after (cmp x y) then y # js_insert cmp x ys else x # y # ys)"

definition js_sort :: "('a \<Rightarrow> 'a \<Rightarrow> int option) \<Rightarrow> 'a list \<Rightarrow> 'a list" where
  "js_sort cmp xs = foldr (js_insert cmp) xs []"

definition minus_number :: "int option \<Rightarrow> int option \<Rightarrow> int option" where
  \<comment> \<open>\<^verbatim>\<open>x - y\<close> on numbers: \<^verbatim>\<open>NaN\<close> if either is\<close>
  "minus_number x y = (case (x, y) of (Some m, Some n) \<Rightarrow> Some (m - n) | _ \<Rightarrow> None)"

definition newest_first :: "article \<Rightarrow> article \<Rightarrow> int option" where
  \<comment> \<open>\<^verbatim>\<open>(a, b) => b.pubDate - a.pubDate\<close>\<close>
  "newest_first a b = minus_number (pubDate b) (pubDate a)"

definition by_date :: "article list \<Rightarrow> article list" where
  \<comment> \<open>the order in which \<^verbatim>\<open>articles.sort(...)\<close> leaves the elements of the array\<close>
  "by_date xs = js_sort newest_first xs"

text \<open>
  Arrays are objects: \<open>sortArticlesByDate\<close> receives a reference and \<^verbatim>\<open>sort\<close> reorders the
  array behind it. The store gives every array reference its current contents.
\<close>

type_synonym ref = nat
type_synonym store = "ref \<Rightarrow> article list"

definition sortArticlesByDate :: "ref \<Rightarrow> store \<Rightarrow> ref \<times> store" where
  "sortArticlesByDate articles h = (articles, h(articles := by_date (h articles)))"

definition sorted_output :: "ref \<Rightarrow> store \<Rightarrow> article list" where
  \<comment> \<open>the contents of the array that \<open>sortArticlesByDate\<close> returns\<close>
  "sorted_output articles h = (case sortArticlesByDate articles h of (r, h') \<Rightarrow> h' r)"

definition date_ge :: "js_date \<Rightarrow> js_date \<Rightarrow> bool" where
  \<comment> \<open>\<^verbatim>\<open>x >= y\<close> on time values: false when either is \<^verbatim>\<open>NaN\<close>\<close>
  "date_ge x y = (case (x, y) of (Some m, Some n) \<Rightarrow> n \<le> m | _ \<Rightarrow> False)"

definition newest_to_oldest :: "article list \<Rightarrow> bool" where
  \<comment> \<open>monotonically non-increasing in \<open>pubDate\<close> from the first element to the last\<close>
  "newest_to_oldest xs = sorted_wrt (\<lambda>a b. date_ge (pubDate a) (pubDate b)) xs"

definition same_date_order :: "article list \<Rightarrow> article list \<Rightarrow> bool" where
  \<comment> \<open>the articles of each \<open>pubDate\<close> stand in \<open>ys\<close> in the order they have in \<open>xs\<close>\<close>
  "same_date_order xs ys \<longleftrightarrow>
     (\<forall>d. filter (\<lambda>a. pubDate a = d) ys = filter (\<lambda>a. pubDate a = d) xs)"

subsection \<open>The cache\<close>

text \<open>
  \<^verbatim>\<open>localStorage\<close> holds JSON text under the key \<^verbatim>\<open>rss_cache\<close>. The text is modelled by
  the document it denotes (type \<open>json\<close>), which is also the value \<^verbatim>\<open>JSON.parse\<close> returns
  for it. Numbers are the integers: every number stored here is a count of milliseconds.
  \<open>jsval\<close> adds what a value in memory can be and a JSON document cannot: \<^verbatim>\<open>undefined\<close>
  and \<^verbatim>\<open>Date\<close> objects.
\<close>

datatype jsval =
  Undefined | Null | Bool bool | Num int | Str jsstring | DateObj js_date
  | Arr "jsval list" | Obj "(jsstring \<times> jsval) list"

fun JSON_stringify :: "browser \<Rightarrow> jsval \<Rightarrow> json option"
  and stringify_elements :: "browser \<Rightarrow> jsval list \<Rightarrow> json list"
  and stringify_members :: "browser \<Rightarrow> (jsstring \<times> jsval) list \<Rightarrow> (jsstring \<times> json) list"
where
  "JSON_stringify B Undefined = None"
| "JSON_stringify B Null = Some JNull"
| "JSON_stringify B (Bool b) = Some (JBool b)"
| "JSON_stringify B (Num n) = Some (JNum n)"
| "JSON_stringify B (Str s) = Some (JStr s)"
| "JSON_stringify B (DateObj d) = Some (case d of None \<Rightarrow> JNull | Some t \<Rightarrow> JStr (toISOString B t))"
| "JSON_stringify B (Arr vs) = Some (JArr (stringify_elements B vs))"
| "JSON_stringify B (Obj kvs) = Some (JObj (stringify_members B kvs))"
| "stringify_elements B [] = []"
| "stringify_elements B (v # vs) =
     (case JSON_stringify B v of None \<Rightarrow> JNull | Some j \<Rightarrow> j) # stringify_elements B vs"
| "stringify_members B [] = []"
| "stringify_members B ((k, v) # kvs) =
     (case JSON_stringify B v of
        None \<Rightarrow> stringify_members B kvs
      | Some j \<Rightarrow> (k, j) # stringify_members B kvs)"

fun JSON_parse :: "json \<Rightarrow> jsval"
  and parse_elements :: "json list \<Rightarrow> jsval list"
  and parse_members :: "(jsstring \<times> json) list \<Rightarrow> (jsstring \<times> jsval) list"
where
  "JSON_parse JNull = Null"
| "JSON_parse (JBool b) = Bool b"
| "JSON_parse (JNum n) = Num n"
| "JSON_parse (JStr s) = Str s"
| "JSON_parse (JArr js) = Arr (parse_elements js)"
| "JSON_parse (JObj kjs) = Obj (parse_members kjs)"
| "parse_elements [] = []"
| "parse_elements (j # js) = JSON_parse j # parse_elements js"
| "parse_members [] = []"
| "parse_members ((k, j) # kjs) = (k, JSON_parse j) # parse_members kjs"

definition article_value :: "article \<Rightarrow> jsval" where
  \<comment> \<open>an Article as the object that \<open>parseFeedItems\<close> builds\<close>
  "article_value a =
     Obj [(str ''title'', Str (title a)),
          (str ''link'', (case link a of None \<Rightarrow> Undefined | Some l \<Rightarrow> Str l)),
          (str ''description'', Str (description a)),
          (str ''pubDate'', DateObj (pubDate a)),
          (str ''author'', Str (author a)),
          (str ''thumbnail'', Str (thumbnail a)),
          (str ''categories'', Arr (map Str (categories a))),
          (str ''source'', Str (source a))]"

record world =
  clock :: int
    \<comment> \<open>\<^verbatim>\<open>Date.now()\<close>\<close>
  rss_cache :: "json option"
    \<comment> \<open>the item \<^verbatim>\<open>rss_cache\<close> of \<^verbatim>\<open>localStorage\<close>; \<open>None\<close> when there is none\<close>
  storage_full :: bool
    \<comment> \<open>\<^verbatim>\<open>setItem\<close> throws (quota exceeded, storage disabled)\<close>
  container_html :: "jsstring option"
    \<comment> \<open>\<^verbatim>\<open>innerHTML\<close> of the element that \<^verbatim>\<open>querySelector(this.container)\<close> finds;
        \<open>None\<close> when it finds none\<close>

definition cacheArticles :: "browser \<Rightarrow> world \<Rightarrow> article list \<Rightarrow> world" where
  "cacheArticles B w articles =
     (if storage_full w then w
      else w\<lparr>rss_cache :=
             JSON_stringify B (Obj [(str ''articles'', Arr (map article_value articles)),
                                    (str ''timestamp'', Num (clock w))])\<rparr>)"

definition js_null :: "json option" where
  \<comment> \<open>a value that \<open>getCachedArticles\<close> returns is a parsed value, \<^verbatim>\<open>null\<close> or
      \<^verbatim>\<open>undefined\<close> (\<open>None\<close>)\<close>
  "js_null = Some JNull"

definition get_member :: "json \<Rightarrow> jsstring \<Rightarrow> json option" where
  \<comment> \<open>\<^verbatim>\<open>v.name\<close> for a parsed value other than \<^verbatim>\<open>null\<close> and a name that no prototype
      defines (\<^verbatim>\<open>timestamp\<close>, \<^verbatim>\<open>articles\<close>)\<close>
  "get_member v name = (case v of JObj kvs \<Rightarrow> map_of kvs name | _ \<Rightarrow> None)"

definition timestamp_number :: "browser \<Rightarrow> json option \<Rightarrow> error + int option" where
  \<comment> \<open>\<^verbatim>\<open>ToNumber\<close> of the operand of \<^verbatim>\<open>Date.now() - cacheData.timestamp\<close>\<close>
  "timestamp_number B v =
     (case v of
        None \<Rightarrow> Inr None
      | Some JNull \<Rightarrow> Inr (Some 0)
      | Some (JBool b) \<Rightarrow> Inr (Some (if b then 1 else 0))
      | Some (JNum n) \<Rightarrow> Inr (Some n)
      | Some x \<Rightarrow> ToNumber B x)"

definition getCachedArticles :: "browser \<Rightarrow> rss_fetcher \<Rightarrow> world \<Rightarrow> json option" where
  \<comment> \<open>every exception (a property of \<^verbatim>\<open>null\<close>, a conversion that throws) ends in the
      \<^verbatim>\<open>catch\<close> block, which returns \<^verbatim>\<open>null\<close>\<close>
  "getCachedArticles B F w =
     (case rss_cache w of
        None \<Rightarrow> js_null
      | Some cacheData \<Rightarrow>
          if cacheData = JNull then js_null
          else (case timestamp_number B (get_member cacheData (str ''timestamp'')) of
                  Inl e \<Rightarrow> js_null
                | Inr None \<Rightarrow> js_null
                | Inr (Some ts) \<Rightarrow>
                    if clock w - ts < updateInterval F then get_member cacheData (str ''articles'')
                    else js_null))"

definition truthy :: "json option \<Rightarrow> bool" where
  "truthy v =
     (case v of
        None \<Rightarrow> False
      | Some JNull \<Rightarrow> False
      | Some (JBool b) \<Rightarrow> b
      | Some (JNum n) \<Rightarrow> n \<noteq> 0
      | Some (JStr s) \<Rightarrow> s \<noteq> []
      | Some _ \<Rightarrow> True)"

definition generateArticleHTML_parsed :: "rss_fetcher \<Rightarrow> json \<Rightarrow> error + jsstring" where
  \<comment> \<open>\<open>generateArticleHTML\<close> on a value that \<^verbatim>\<open>JSON.parse\<close> returned. Only an array has
      \<^verbatim>\<open>slice\<close> and \<^verbatim>\<open>map\<close>. No parsed value has a method \<^verbatim>\<open>toISOString\<close>, so
      \<^verbatim>\<open>article.pubDate.toISOString()\<close> throws a TypeError for the first element that is
      rendered, unless an earlier conversion in the template has thrown one already.\<close>
  "generateArticleHTML_parsed F v =
     (case v of
        JArr xs \<Rightarrow> if take (maxArticles F) xs = [] then Inr [] else Inl TypeError
      | _ \<Rightarrow> Inl TypeError)"

subsection \<open>Display\<close>

definition loading_html :: jsstring where
  \<open>loading_html = str ''<div class="loading">Loading latest cybersecurity news...</div>''\<close>

definition error_html :: jsstring where
  \<open>error_html = str ''<div class="error">Failed to load articles. Please try again later.</div>''\<close>

definition displayArticles :: "browser \<Rightarrow> rss_fetcher \<Rightarrow> int \<Rightarrow> world \<Rightarrow> error option \<times> world" where
  \<comment> \<open>\<open>elapsed\<close>: the time that passes while the feeds are awaited. The first component
      is the exception that rejects the promise, if any. \<open>allArticles\<close> is a fresh array
      that nothing else refers to, so only the order \<open>by_date\<close> of its elements is seen.\<close>
  "displayArticles B F elapsed w =
     (case container_html w of
        None \<Rightarrow> (None, w)
      | Some old \<Rightarrow>
          let w1 = w\<lparr>container_html := Some loading_html\<rparr>;
              cachedArticles = getCachedArticles B F w1
          in if truthy cachedArticles then
               (case cachedArticles of
                  None \<Rightarrow> (None, w1)
                | Some v \<Rightarrow>
                    (case generateArticleHTML_parsed F v of
                       Inl e \<Rightarrow> (Some e, w1)
                     | Inr html \<Rightarrow> (None, w1\<lparr>container_html := Some html\<rparr>)))
             else
               let fs = fetchAllFeeds B F
               in if length fs = 0 then (None, w1\<lparr>container_html := Some error_html\<rparr>)
                  else
                    let allArticles = concat (map (\<lambda>fd. parseFeedItems B (Some fd)) fs);
                        sortedArticles = by_date allArticles;
                        w2 = cacheArticles B (w1\<lparr>clock := clock w1 + elapsed\<rparr>) sortedArticles
                    in (case generateArticleHTML B F sortedArticles of
                          Inl e \<Rightarrow> (Some e, w2)
                        | Inr html \<Rightarrow> (None, w2\<lparr>container_html := Some html\<rparr>)))"

definition auto_update :: "browser \<Rightarrow> rss_fetcher \<Rightarrow> int \<Rightarrow> world \<Rightarrow> error option \<times> world" where
  \<comment> \<open>one firing of the timer of \<open>startAutoUpdate\<close>\<close>
  "auto_update B F elapsed w = displayArticles B F elapsed (w\<lparr>rss_cache := None\<rparr>)"



section \<open>AutoContentManager\<close>

subsection \<open>slugify\<close>

function replace_runs :: "(nat \<Rightarrow> bool) \<Rightarrow> nat \<Rightarrow> jsstring \<Rightarrow> jsstring \<Rightarrow> jsstring" where
  \<comment> \<open>\<^verbatim>\<open>s.replace(/C{n,}/g, r)\<close> for a character class \<open>C\<close> and \<open>n \<ge> 1\<close>: a match is a
      maximal run of at least \<open>n\<close> characters of the class, and the search goes on behind it\<close>
  "replace_runs C n r [] = []"
| "replace_runs C n r (c # cs) =
     (if C c \<and> n \<le> Suc (length (takeWhile C cs))
      then r @ replace_runs C n r (dropWhile C cs)
      else c # replace_runs C n r cs)"
  by pat_completeness auto
termination
  by (relation "measure (\<lambda>(C, n, r, s). length s)") (auto simp: length_dropWhile_le less_Suc_eq_le)

definition slugify :: "jsstring \<Rightarrow> jsstring" where
  "slugify text =
     replace_runs (\<lambda>c. c = 0x2D) 2 (str ''-'')
       (replace_runs (\<lambda>c. \<not> is_word c \<and> c \<noteq> 0x2D) 1 []
          (replace_runs is_space 1 (str ''-'')
             (trim (toLowerCase text))))"

subsection \<open>extractKeywords\<close>

definition commonWords :: "jsstring list" where
  "commonWords = [str ''the'', str ''is'', str ''at'', str ''which'', str ''on'', str ''a'', str ''an'',
                  str ''and'', str ''or'', str ''but'', str ''in'', str ''with'', str ''to'', str ''for'']"

function match_words :: "bool \<Rightarrow> jsstring \<Rightarrow> jsstring list" where
  \<comment> \<open>\<^verbatim>\<open>s.match(/\b[a-z]{4,}\b/g) || []\<close>, scanning from a position whose preceding
      character is a word character iff \<open>prev\<close>. \<^verbatim>\<open>\b\<close> holds between a word character and
      a character that is none (or an end of the string). At a position behind a character
      that is no word character the greedy \<^verbatim>\<open>[a-z]{4,}\<close> takes the whole run of letters;
      a shorter choice ends between two letters, where \<^verbatim>\<open>\b\<close> fails. After a match the
      search goes on behind it, otherwise at the next position.\<close>
  "match_words prev [] = []"
| "match_words prev (c # cs) =
     (if \<not> prev \<and> is_az c \<and> 4 \<le> Suc (length (takeWhile is_az cs))
         \<and> (case dropWhile is_az cs of [] \<Rightarrow> True | d # ds \<Rightarrow> \<not> is_word d)
      then (c # takeWhile is_az cs) # match_words True (dropWhile is_az cs)
      else match_words (is_word c) cs)"
  by pat_completeness auto
termination
  by (relation "measure (\<lambda>(prev, s). length s)") (auto simp: length_dropWhile_le less_Suc_eq_le)

text \<open>
  \<open>frequency\<close> is an object created by \<^verbatim>\<open>{}\<close>: its own properties in the order of their
  creation, which is the order of \<^verbatim>\<open>Object.entries\<close> (no key is an array index: the keys
  are words of letters), and behind them the properties of \<^verbatim>\<open>Object.prototype\<close>. Of
  those only \<^verbatim>\<open>constructor\<close> is spelled with lower-case letters alone, so it is the only
  one that a word can name. Its value is the function \<^verbatim>\<open>Object\<close>, which is truthy, and
  \<^verbatim>\<open>+\<close> turns a function into its source text and concatenates.
\<close>

datatype fval = Count nat | Text jsstring

definition inherited_text :: "jsstring \<Rightarrow> jsstring option" where
  \<comment> \<open>\<^verbatim>\<open>String(Object.prototype[word])\<close> for a word of lower-case letters, \<open>None\<close> where
      \<^verbatim>\<open>Object.prototype\<close> has no such property\<close>
  "inherited_text word =
     (if word = str ''constructor'' then Some (str ''function Object() { [native code] }'') else None)"

fun put :: "jsstring \<Rightarrow> fval \<Rightarrow> (jsstring \<times> fval) list \<Rightarrow> (jsstring \<times> fval) list" where
  \<comment> \<open>assignment to a property: an own property keeps its place, a new one goes last\<close>
  "put k v [] = [(k, v)]"
| "put k v (p # ps) = (if fst p = k then (k, v) # ps else p # put k v ps)"

definition count_word :: "jsstring \<Rightarrow> (jsstring \<times> fval) list \<Rightarrow> (jsstring \<times> fval) list" where
  \<comment> \<open>\<^verbatim>\<open>frequency[word] = (frequency[word] || 0) + 1\<close>\<close>
  "count_word word frequency =
     (case map_of frequency word of
        Some (Count n) \<Rightarrow> put word (Count (n + 1)) frequency
      | Some (Text s) \<Rightarrow> put word (if s = [] then Count 1 else Text (s @ str ''1'')) frequency
      | None \<Rightarrow>
          (case inherited_text word of
             Some s \<Rightarrow> put word (Text (s @ str ''1'')) frequency
           | None \<Rightarrow> put word (Count 1) frequency))"

definition fval_number :: "fval \<Rightarrow> int option" where
  \<comment> \<open>\<^verbatim>\<open>ToNumber\<close>: the texts that arise here begin with \<^verbatim>\<open>function\<close> and are no numerals\<close>
  "fval_number v = (case v of Count n \<Rightarrow> Some (int n) | Text s \<Rightarrow> None)"

definition most_frequent_first :: "jsstring \<times> fval \<Rightarrow> jsstring \<times> fval \<Rightarrow> int option" where
  \<comment> \<open>\<^verbatim>\<open>(a, b) => b[1] - a[1]\<close>\<close>
  "most_frequent_first a b = minus_number (fval_number (snd b)) (fval_number (snd a))"

definition keyword_words :: "jsstring \<Rightarrow> jsstring list" where
  \<comment> \<open>\<open>filtered\<close>\<close>
  "keyword_words text = filter (\<lambda>word. word \<notin> set commonWords) (match_words False (toLowerCase text))"

definition keyword_frequency :: "jsstring \<Rightarrow> (jsstring \<times> fval) list" where
  \<comment> \<open>\<open>frequency\<close> after the \<^verbatim>\<open>forEach\<close>\<close>
  "keyword_frequency text = fold count_word (keyword_words text) []"

definition first_occurrences :: "'a list \<Rightarrow> 'a list" where
  \<comment> \<open>the distinct elements of a list in the order in which they are first encountered\<close>
  "first_occurrences ws = rev (remdups (rev ws))"

definition count_table :: "jsstring list \<Rightarrow> (jsstring \<times> fval) list" where
  \<comment> \<open>every word of a list with the number of its occurrences, in the order of first
      occurrence: what \<open>frequency\<close> is meant to hold\<close>
  "count_table ps = map (\<lambda>w. (w, Count (count_list ps w))) (first_occurrences ps)"

definition keyword_count :: "nat option \<Rightarrow> nat" where
  \<comment> \<open>the default value of the parameter: \<^verbatim>\<open>count = 10\<close>\<close>
  "keyword_count count' = (case count' of None \<Rightarrow> 10 | Some n \<Rightarrow> n)"

definition extractKeywords :: "jsstring \<Rightarrow> nat option \<Rightarrow> jsstring list" where
  "extractKeywords text count' =
     map fst (take (keyword_count count') (js_sort most_frequent_first (keyword_frequency text)))"

subsection \<open>updateMetaTag\<close>

text \<open>
  The document: the elements inside \<^verbatim>\<open>head\<close> and the elements behind it, each list in
  document order. An element is its tag name and its attributes. In an HTML document
  \<^verbatim>\<open>setAttribute\<close> puts the name of the attribute into lower case, and a selector matches
  attribute names without regard to case.
\<close>

record element =
  tag :: jsstring
  attrs :: "(jsstring \<times> jsstring) list"

record document =
  head :: "element list"
  rest :: "element list"

definition ascii_lower :: "jsstring \<Rightarrow> jsstring" where
  "ascii_lower s = map (\<lambda>c. if 0x41 \<le> c \<and> c \<le> 0x5A then c + 0x20 else c) s"

fun put_attr :: "jsstring \<Rightarrow> jsstring \<Rightarrow> (jsstring \<times> jsstring) list \<Rightarrow> (jsstring \<times> jsstring) list" where
  "put_attr k v [] = [(k, v)]"
| "put_attr k v (p # ps) = (if fst p = k then (k, v) # ps else p # put_attr k v ps)"

definition setAttribute :: "jsstring \<Rightarrow> jsstring \<Rightarrow> element \<Rightarrow> element" where
  "setAttribute name v e = e\<lparr>attrs := put_attr (ascii_lower name) v (attrs e)\<rparr>"

definition case_insensitive_attributes :: "jsstring list" where
  \<comment> \<open>the attributes whose values a selector compares without regard to ASCII case
      (HTML, section "Case-sensitivity of selectors")\<close>
  "case_insensitive_attributes =
     map str [''accept'', ''accept-charset'', ''align'', ''alink'', ''axis'', ''bgcolor'', ''charset'',
       ''checked'', ''clear'', ''codetype'', ''color'', ''compact'', ''declare'', ''defer'', ''dir'',
       ''direction'', ''disabled'', ''enctype'', ''face'', ''frame'', ''hreflang'', ''http-equiv'',
       ''lang'', ''language'', ''link'', ''media'', ''method'', ''multiple'', ''nohref'', ''noresize'',
       ''noshade'', ''nowrap'', ''readonly'', ''rel'', ''rev'', ''rules'', ''scope'', ''scrolling'',
       ''selected'', ''shape'', ''target'', ''text'', ''type'', ''valign'', ''valuetype'', ''vlink'']"

definition selects :: "jsstring \<Rightarrow> jsstring \<Rightarrow> element \<Rightarrow> bool" where
  \<comment> \<open>the element matches \<^verbatim>\<open>meta[name="v"]\<close>\<close>
  "selects name v e \<longleftrightarrow>
     tag e = str ''meta'' \<and>
     (case map_of (attrs e) (ascii_lower name) of
        None \<Rightarrow> False
      | Some x \<Rightarrow> if ascii_lower name \<in> set case_insensitive_attributes
                  then ascii_lower x = ascii_lower v else x = v)"

definition plain_name :: "jsstring \<Rightarrow> bool" where
  \<comment> \<open>an ASCII identifier: a letter or \<^verbatim>\<open>_\<close>, then letters, digits, \<^verbatim>\<open>_\<close> and \<^verbatim>\<open>-\<close>\<close>
  "plain_name s \<longleftrightarrow>
     (case s of
        [] \<Rightarrow> False
      | c # cs \<Rightarrow> (is_word c \<and> \<not> (0x30 \<le> c \<and> c \<le> 0x39)) \<and> (\<forall>d \<in> set cs. is_word d \<or> d = 0x2D))"

definition plain_value :: "jsstring \<Rightarrow> bool" where
  \<comment> \<open>no character that ends or escapes a quoted string of CSS or that its preprocessing
      replaces: \<^verbatim>\<open>"\<close>, \<^verbatim>\<open>\\<close>, line feed, form feed, carriage return, NUL, surrogates\<close>
  "plain_value s \<longleftrightarrow>
     (\<forall>c \<in> set s. c \<notin> set [0x22, 0x5C, 0x0A, 0x0C, 0x0D, 0x00] \<and> \<not> (0xD800 \<le> c \<and> c \<le> 0xDFFF))"

fun update_first :: "('a \<Rightarrow> bool) \<Rightarrow> ('a \<Rightarrow> 'a) \<Rightarrow> 'a list \<Rightarrow> 'a list" where
  "update_first P f [] = []"
| "update_first P f (x # xs) = (if P x then f x # xs else x # update_first P f xs)"

definition new_meta :: element where
  \<comment> \<open>\<^verbatim>\<open>document.createElement('meta')\<close>\<close>
  "new_meta = \<lparr>tag = str ''meta'', attrs = []\<rparr>"

definition attribute_name :: "jsstring option \<Rightarrow> jsstring" where
  \<comment> \<open>the default value of the parameter: \<^verbatim>\<open>attributeType = 'property'\<close>\<close>
  "attribute_name attributeType = (case attributeType of None \<Rightarrow> str ''property'' | Some t \<Rightarrow> t)"

definition updateMetaTag ::
  "jsstring \<Rightarrow> jsstring option \<Rightarrow> jsstring option \<Rightarrow> document \<Rightarrow> document option" where
  \<comment> \<open>\<open>updateMetaTag property content attributeType\<close>. The selector text
      \<^verbatim>\<open>meta[${attributeType}="${property}"]\<close> is read as "a \<^verbatim>\<open>meta\<close> element whose
      attribute \<open>attributeType\<close> has the value \<open>property\<close>", which is what it means when
      \<open>attributeType\<close> is a plain name and \<open>property\<close> a plain value. The result is
      \<open>None\<close> for the other arguments: what the selector parser makes of them is not
      modelled. \<^verbatim>\<open>querySelector\<close> returns the first match in document order.\<close>
  "updateMetaTag property content attributeType d =
     (if \<not> truthy_string content then Some d
      else if \<not> (plain_name (attribute_name attributeType) \<and> plain_value property) then None
      else
        let c = String_of content;
            found = selects (attribute_name attributeType) property
        in if list_ex found (head d)
           then Some (d\<lparr>head := update_first found (setAttribute (str ''content'') c) (head d)\<rparr>)
           else if list_ex found (rest d)
           then Some (d\<lparr>rest := update_first found (setAttribute (str ''content'') c) (rest d)\<rparr>)
           else Some (d\<lparr>head := head d @
                    [setAttribute (str ''content'') c
                       (setAttribute (attribute_name attributeType) property new_meta)]\<rparr>))"



section \<open>Example data\<close>

text \<open>
  A platform, a configuration and a feed on which the theorems below are instantiated:
  two feeds are configured, the first answers with three items, the second with status 500.
\<close>

definition example_item1 :: item where
  "example_item1 =
     \<lparr> i_title = Some (str ''Kali Linux 2024.1 Release''),
       i_link = Some (str ''https://www.kali.org/blog/kali-linux-2024-1-release/''),
       i_description = Some (str ''  Micro Mirror & theme refresh  ''),
       i_pubDate = Some (str ''2024-03-01''),
       i_author = None,
       i_thumbnail = None,
       i_enclosure = Some \<lparr>enc_link = Some (str ''https://www.kali.org/a.png'')\<rparr>,
       i_categories = None \<rparr>"

definition example_item2 :: item where
  "example_item2 =
     \<lparr> i_title = Some (str ''New tools''),
       i_link = Some (str ''https://www.kali.org/blog/tools/''),
       i_description = Some (str ''Four tools''),
       i_pubDate = Some (str ''2024-03-03''),
       i_author = Some (str ''g0tmi1k''),
       i_thumbnail = Some (str ''https://www.kali.org/t.png''),
       i_enclosure = None,
       i_categories = Some [str ''tools'', str ''release'', str ''news'', str ''extra''] \<rparr>"

definition example_item3 :: item where
  "example_item3 =
     \<lparr> i_title = None,
       i_link = None,
       i_description = None,
       i_pubDate = Some (str ''2024-03-02''),
       i_author = Some [],
       i_thumbnail = None,
       i_enclosure = None,
       i_categories = Some [] \<rparr>"

definition example_feed :: feed_response where
  "example_feed =
     \<lparr> items = Some [example_item1, example_item2, example_item3],
       feed = Some \<lparr>f_title = Some (str ''Kali Linux'')\<rparr> \<rparr>"

definition example_browser :: browser where
  "example_browser =
     \<lparr> fetch = (\<lambda>url.
         if url = str ''https://proxy.example/?u=feedA'' then Response 200 (JsonFeed example_feed)
         else if url = str ''https://proxy.example/?u=feedB'' then Response 500 JsonNull
         else NetworkError),
       encodeURIComponent = Some,
       Date_parse = (\<lambda>s.
         if s = str ''2024-03-01'' then Some 1709251200000
         else if s = str ''2024-03-02'' then Some 1709337600000
         else if s = str ''2024-03-03'' then Some 1709424000000
         else None),
       toISOString = (\<lambda>t.
         if t = 1709251200000 then str ''2024-03-01T00:00:00.000Z''
         else if t = 1709337600000 then str ''2024-03-02T00:00:00.000Z''
         else if t = 1709424000000 then str ''2024-03-03T00:00:00.000Z''
         else str ''1970-01-01T00:00:00.000Z''),
       toLocaleDateString = (\<lambda>d.
         if d = Some 1709251200000 then str ''Mar 1, 2024''
         else if d = Some 1709337600000 then str ''Mar 2, 2024''
         else if d = Some 1709424000000 then str ''Mar 3, 2024''
         else if d = None then str ''Invalid Date''
         else str ''Jan 1, 1970''),
       textContent = (\<lambda>s. s),
       innerText = (\<lambda>s. s),
       ToNumber = (\<lambda>v. Inr None) \<rparr>"

definition example_fetcher :: rss_fetcher where
  "example_fetcher =
     RSSFetcher \<lparr> o_corsProxy = Some (str ''https://proxy.example/?u=''),
                  o_feeds = Some [str ''feedA'', str ''feedB''],
                  o_maxArticles = None,
                  o_updateInterval = None,
                  o_container = None \<rparr>"

definition example_world :: world where
  "example_world =
     \<lparr> clock = 1709500000000, rss_cache = None, storage_full = False, container_html = Some [] \<rparr>"

definition example_article :: article where
  \<open>example_article =
     \<lparr> title = str ''Tom & Jerry <b>'',
       link = Some (str ''https://example.org/?a=1&b=2''),
       description = str ''it's "new"'',
       pubDate = Some 0,
       author = str ''Unknown'',
       thumbnail = [],
       categories = [str ''x<y''],
       source = str ''Feed'' \<rparr>\<close>


definition dated :: "js_date \<Rightarrow> article" where
  "dated d = example_article\<lparr>pubDate := d\<rparr>"

definition example_store :: store where
  \<comment> \<open>array 0 holds an article with an Invalid Date between two dated ones, array 1 an
      older article before a newer one\<close>
  "example_store =
     (\<lambda>r. if r = 0 then [dated (Some 1), dated None, dated (Some 2)]
          else if r = 1 then [dated (Some 1), dated (Some 2)]
          else [])"


definition example_untitled_feed :: feed_response where
  \<comment> \<open>a feed whose title is the empty string\<close>
  "example_untitled_feed = \<lparr> items = Some [example_item1], feed = Some \<lparr>f_title = Some []\<rparr> \<rparr>"


definition example_document :: document where
  \<comment> \<open>a document without \<^verbatim>\<open>meta\<close> elements\<close>
  "example_document = \<lparr> head = [\<lparr>tag = str ''title'', attrs = []\<rparr>], rest = [] \<rparr>"


section \<open>Verification\<close>

subsection \<open>The example data\<close>

lemma example_fetcher_simps:
  "maxArticles example_fetcher = 10"
  "updateInterval example_fetcher = 3600000"
  "feeds example_fetcher = [str ''feedA'', str ''feedB'']"
  "corsProxy example_fetcher = str ''https://proxy.example/?u=''"
  by (simp_all add: example_fetcher_def RSSFetcher_def truthy_string_def String_of_def str_def)

lemma example_platform:
  "encodeURIComponent example_browser u = Some u"
  "fetch example_browser (str ''https://proxy.example/?u='' @ str ''feedA'') = Response 200 (JsonFeed example_feed)"
  "fetch example_browser (str ''https://proxy.example/?u='' @ str ''feedB'') = Response 500 JsonNull"
  "textContent example_browser t = t"
  "innerText example_browser t = t"
  by (simp_all add: example_browser_def str_def)

lemma example_feed_items: "items example_feed = Some [example_item1, example_item2, example_item3]"
  by (simp add: example_feed_def)

lemma example_dates:
  "new_Date example_browser (i_pubDate example_item1) = Some 1709251200000"
  "new_Date example_browser (i_pubDate example_item2) = Some 1709424000000"
  "new_Date example_browser (i_pubDate example_item3) = Some 1709337600000"
  by (simp_all add: new_Date_def example_browser_def example_item1_def example_item2_def
      example_item3_def str_def)

lemma example_world_simps:
  "container_html example_world = Some []"
  "rss_cache example_world = None"
  "\<not> storage_full example_world"
  "clock example_world = 1709500000000"
  by (simp_all add: example_world_def)

lemma example_miss: "\<not> truthy (getCachedArticles example_browser example_fetcher example_world)"
  by (simp add: getCachedArticles_def example_world_simps js_null_def truthy_def)

subsection \<open>Rendering escapes every field\<close>




lemma article_pieces_FieldText:
  "article_pieces B a = Inr ys \<Longrightarrow> FieldText t \<in> set ys \<Longrightarrow> \<exists>v. t = escapeHtml v"
  by (auto simp: article_pieces_def thumbnail_block_def author_block_def categories_block_def
      category_tag_def split: option.splits if_splits)



















subsection \<open>Sorting by date\<close>

lemma mset_js_insert: "mset (js_insert cmp x ys) = add_mset x (mset ys)"
  by (induction ys) auto

lemma mset_js_sort: "mset (js_sort cmp xs) = mset xs"
  unfolding js_sort_def by (induction xs) (auto simp: mset_js_insert)

lemma js_insert_numeric:
  assumes "g x \<noteq> None" "\<forall>y \<in> set ys. g y \<noteq> None"
  shows "js_insert (\<lambda>a b. minus_number (g b) (g a)) x ys = insort_key (\<lambda>a. - the (g a)) x ys"
  using assms
  by (induction ys) (auto simp: minus_number_def comes_after_def)

lemma js_sort_numeric:
  assumes "\<forall>a \<in> set xs. g a \<noteq> None"
  shows "js_sort (\<lambda>a b. minus_number (g b) (g a)) xs = sort_key (\<lambda>a. - the (g a)) xs"
  using assms
proof (induction xs)
  case Nil
  then show ?case by (simp add: js_sort_def)
next
  case (Cons x xs)
  let ?cmp = "\<lambda>a b. minus_number (g b) (g a)"
  from Cons have IH: "js_sort ?cmp xs = sort_key (\<lambda>a. - the (g a)) xs" by simp
  have "\<forall>y \<in> set (js_sort ?cmp xs). g y \<noteq> None"
    using Cons.prems mset_js_sort[of ?cmp xs]
    by (metis list.set_intros(2) set_mset_mset)
  with Cons.prems
  have "js_insert ?cmp x (js_sort ?cmp xs) = insort_key (\<lambda>a. - the (g a)) x (js_sort ?cmp xs)"
    by (intro js_insert_numeric) auto
  then show ?case using IH by (simp add: js_sort_def sort_key_def)
qed

lemma by_date_dated:
  assumes "\<forall>a \<in> set xs. pubDate a \<noteq> None"
  shows "by_date xs = sort_key (\<lambda>a. - the (pubDate a)) xs"
proof -
  have "newest_first = (\<lambda>a b. minus_number (pubDate b) (pubDate a))"
    by (intro ext) (simp add: newest_first_def)
  then show ?thesis
    using js_sort_numeric[OF assms] by (simp add: by_date_def)
qed

lemma sorted_output_eq: "sorted_output r h = by_date (h r)"
  by (simp add: sorted_output_def sortArticlesByDate_def)

lemma example_store_0: "example_store 0 = [dated (Some 1), dated None, dated (Some 2)]"
  by (simp add: example_store_def)

lemma example_store_1:
  "example_store 1 = [dated (Some 1), dated (Some 2)]"
  "example_store (Suc 0) = [dated (Some 1), dated (Some 2)]"
  by (simp_all add: example_store_def)

lemma pubDate_dated: "pubDate (dated d) = d"
  by (simp add: dated_def)

lemma sorted_output_0: "sorted_output 0 example_store = [dated (Some 1), dated None, dated (Some 2)]"
  by (simp add: sorted_output_eq example_store_0 by_date_def js_sort_def newest_first_def
      minus_number_def comes_after_def pubDate_dated)

lemma sorted_output_1: "sorted_output 1 example_store = [dated (Some 2), dated (Some 1)]"
  by (simp add: sorted_output_eq example_store_1 by_date_def js_sort_def newest_first_def
      minus_number_def comes_after_def pubDate_dated)

text \<open>
  C3, as stated, fails: a \<^verbatim>\<open>Date\<close> can be an Invalid Date (\<open>parseFeedItems\<close> makes one
  from a \<open>pubDate\<close> that does not parse), the comparator then returns \<^verbatim>\<open>NaN\<close>, and the
  array with the dates 1, Invalid Date, 2 stays as it is: the output is not non-increasing.
\<close>

theorem sortArticlesByDate_invalid_date_counterexample:
  "\<not> newest_to_oldest (sorted_output 0 example_store)"
  by (simp add: sorted_output_0 newest_to_oldest_def date_ge_def pubDate_dated)

text \<open>
  C3, amended. For every array of articles whose \<open>pubDate\<close>s are all valid dates, the output
  of \<open>sortArticlesByDate\<close> is monotonically non-increasing in \<open>pubDate\<close> from its first
  element to its last, and the sort is stable: the articles of one \<open>pubDate\<close> keep the
  order they had in the input.
\<close>

theorem sortArticlesByDate_sorted_stable:
  assumes "\<forall>a \<in> set (h articles). pubDate a \<noteq> None"
  shows "newest_to_oldest (sorted_output articles h)
         \<and> same_date_order (h articles) (sorted_output articles h)"
proof -
  let ?f = "\<lambda>a. - the (pubDate a)"
  let ?xs = "h articles"
  have eq: "sorted_output articles h = sort_key ?f ?xs"
    using assms by (simp add: sorted_output_eq by_date_dated)
  have valid: "\<forall>a \<in> set (sort_key ?f ?xs). pubDate a \<noteq> None"
    using assms by simp
  have "sorted (map ?f (sort_key ?f ?xs))" by (rule sorted_sort_key)
  then have "sorted_wrt (\<lambda>a b. ?f a \<le> ?f b) (sort_key ?f ?xs)"
    by (simp add: sorted_map)
  then have "sorted_wrt (\<lambda>a b. date_ge (pubDate a) (pubDate b)) (sort_key ?f ?xs)"
    using valid
    by (elim sorted_wrt_mono_rel[rotated]) (auto simp: date_ge_def split: option.splits)
  then have 1: "newest_to_oldest (sorted_output articles h)"
    by (simp add: newest_to_oldest_def eq)
  have "filter (\<lambda>a. pubDate a = d) (sort_key ?f ?xs) = filter (\<lambda>a. pubDate a = d) ?xs" for d
  proof (cases d)
    case None
    with assms valid show ?thesis by (simp add: filter_empty_conv del: set_sort)
  next
    case (Some t)
    have "filter (\<lambda>a. pubDate a = d) (sort_key ?f ?xs) = filter (\<lambda>a. ?f a = - t) (sort_key ?f ?xs)"
      using valid Some by (intro filter_cong) auto
    also have "\<dots> = filter (\<lambda>a. ?f a = - t) ?xs" by (rule sort_key_stable)
    also have "\<dots> = filter (\<lambda>a. pubDate a = d) ?xs"
      using assms Some by (intro filter_cong) auto
    finally show ?thesis .
  qed
  then have 2: "same_date_order (h articles) (sorted_output articles h)"
    by (simp add: same_date_order_def eq)
  from 1 2 show ?thesis ..
qed

theorem sortArticlesByDate_sorted_stable_witness:
  "example_store 1 = [dated (Some 1), dated (Some 2)]
   \<and> pubDate (dated (Some 1)) \<noteq> None \<and> pubDate (dated (Some 2)) \<noteq> None
   \<and> newest_to_oldest (sorted_output 1 example_store)
   \<and> same_date_order (example_store 1) (sorted_output 1 example_store)
   \<and> sorted_output 1 example_store = [dated (Some 2), dated (Some 1)]"
proof -
  have h: "\<forall>a \<in> set (example_store 1). pubDate a \<noteq> None"
    by (simp add: example_store_1 pubDate_dated)
  from sortArticlesByDate_sorted_stable[where h = example_store and articles = 1, OF h] sorted_output_1
  show ?thesis by (simp add: example_store_1 pubDate_dated)
qed

text \<open>
  C10. \<open>sortArticlesByDate\<close> returns the reference it was given; the array behind it then
  holds the sorted elements, a permutation of what it held before; no other array changes;
  and the store is not always what it was: the function is not a pure function of its
  argument.
\<close>

theorem sortArticlesByDate_in_place:
  "fst (sortArticlesByDate articles h) = articles
   \<and> snd (sortArticlesByDate articles h) articles = sorted_output articles h
   \<and> mset (sorted_output articles h) = mset (h articles)
   \<and> (\<forall>r. r \<noteq> articles \<longrightarrow> snd (sortArticlesByDate articles h) r = h r)
   \<and> snd (sortArticlesByDate 1 example_store) \<noteq> example_store"
proof -
  have "pubDate (dated (Some 2)) \<noteq> pubDate (dated (Some 1))"
    by (simp add: pubDate_dated)
  then have "dated (Some 2) \<noteq> dated (Some 1)"
    by auto
  then have "snd (sortArticlesByDate 1 example_store) 1 \<noteq> example_store 1"
    using sorted_output_1 by (simp add: sorted_output_def sortArticlesByDate_def example_store_1)
  then have "snd (sortArticlesByDate 1 example_store) \<noteq> example_store" by metis
  then show ?thesis
    by (simp add: sortArticlesByDate_def sorted_output_def by_date_def mset_js_sort)
qed

theorem sortArticlesByDate_in_place_witness:
  "fst (sortArticlesByDate 1 example_store) = 1
   \<and> snd (sortArticlesByDate 1 example_store) 1 = [dated (Some 2), dated (Some 1)]
   \<and> mset [dated (Some 2), dated (Some 1)] = mset (example_store 1)
   \<and> (0::nat) \<noteq> 1 \<and> snd (sortArticlesByDate 1 example_store) 0 = example_store 0"
  using sortArticlesByDate_in_place[of 1 example_store] sorted_output_1 by simp

subsection \<open>slugify\<close>

text \<open>
  C9. \<open>slugify\<close> turns \<^verbatim>\<open>Hello, World!  Foo\<close> (two spaces before \<^verbatim>\<open>Foo\<close>) into
  \<^verbatim>\<open>hello-world-foo\<close>.
\<close>

theorem slugify_hello_world:
  "slugify (str ''Hello, World!  Foo'') = str ''hello-world-foo''"
  by (simp add: slugify_def str_def toLowerCase_def lower_unit_def trim_def is_space_def is_word_def)

subsection \<open>Parsing\<close>

lemma length_sanitizeText: "length (sanitizeText B text) \<le> 200"
  by (simp add: sanitizeText_def)

lemma parse_item_fields:
  "author (parse_item B fd it) = (if truthy_string (i_author it) then String_of (i_author it) else str ''Unknown'')"
  "thumbnail (parse_item B fd it) = item_thumbnail it"
  "categories (parse_item B fd it) = (case i_categories it of None \<Rightarrow> [] | Some cs \<Rightarrow> cs)"
  "source (parse_item B fd it) = feed_source fd"
  "title (parse_item B fd it) = sanitizeText B (i_title it)"
  "description (parse_item B fd it) = sanitizeText B (i_description it)"
  "pubDate (parse_item B fd it) = new_Date B (i_pubDate it)"
  "link (parse_item B fd it) = i_link it"
  by (simp_all add: parse_item_def)

text \<open>
  C4, as stated, fails in one point: the source of an article is not always the title of
  the feed. For a feed whose title is the empty string (or that has no title) it is
  \<^verbatim>\<open>External Source\<close>.
\<close>

theorem parseFeedItems_source_counterexample:
  "feed_title example_untitled_feed = Some []
   \<and> map source (parseFeedItems example_browser (Some example_untitled_feed)) = [str ''External Source'']
   \<and> map source (parseFeedItems example_browser (Some example_untitled_feed))
       \<noteq> [String_of (feed_title example_untitled_feed)]"
  by (simp add: example_untitled_feed_def feed_title_def parseFeedItems_def parse_item_fields
      feed_source_def truthy_string_def String_of_def str_def)

text \<open>
  C4, amended. For every feed response with a list of items, \<open>parseFeedItems\<close> returns
  one article per item, in the order of the items. An item without author gives the author
  \<^verbatim>\<open>Unknown\<close>; an item without thumbnail gives the link of its enclosure if it has one
  and the empty string otherwise; an item without categories gives no categories. The
  source is the title of the feed when the response has a non-empty one and
  \<^verbatim>\<open>External Source\<close> otherwise. Title and description are the text of the markup,
  trimmed and cut to at most 200 code units (empty when the item has none).
\<close>

theorem parseFeedItems_one_article_per_item:
  assumes "items feedData = Some its"
  shows "length (parseFeedItems B (Some feedData)) = length its
    \<and> (\<forall>k < length its.
          (i_author (its ! k) = None \<longrightarrow> author (parseFeedItems B (Some feedData) ! k) = str ''Unknown'')
        \<and> (i_thumbnail (its ! k) = None \<longrightarrow>
             thumbnail (parseFeedItems B (Some feedData) ! k)
               = (if truthy_string (enclosure_link (its ! k)) then String_of (enclosure_link (its ! k)) else []))
        \<and> (i_categories (its ! k) = None \<longrightarrow> categories (parseFeedItems B (Some feedData) ! k) = [])
        \<and> source (parseFeedItems B (Some feedData) ! k)
             = (if truthy_string (feed_title feedData) then String_of (feed_title feedData)
                else str ''External Source'')
        \<and> title (parseFeedItems B (Some feedData) ! k)
             = (if truthy_string (i_title (its ! k))
                then take 200 (trim (cleanText B (String_of (i_title (its ! k))))) else [])
        \<and> description (parseFeedItems B (Some feedData) ! k)
             = (if truthy_string (i_description (its ! k))
                then take 200 (trim (cleanText B (String_of (i_description (its ! k))))) else [])
        \<and> length (title (parseFeedItems B (Some feedData) ! k)) \<le> 200
        \<and> length (description (parseFeedItems B (Some feedData) ! k)) \<le> 200)"
proof -
  have out: "parseFeedItems B (Some feedData) = map (parse_item B feedData) its"
    using assms by (simp add: parseFeedItems_def)
  show ?thesis
    unfolding out
    by (simp add: parse_item_fields length_sanitizeText item_thumbnail_def feed_source_def
        truthy_string_def) (simp add: sanitizeText_def truthy_string_def)
qed

lemma trim_example:
  "trim (str ''  Micro Mirror & theme refresh  '') = str ''Micro Mirror & theme refresh''"
  "take 200 (str ''Micro Mirror & theme refresh'') = str ''Micro Mirror & theme refresh''"
  by (simp_all add: trim_def str_def is_space_def)

theorem parseFeedItems_one_article_per_item_witness:
  "items example_feed = Some [example_item1, example_item2, example_item3]
   \<and> length (parseFeedItems example_browser (Some example_feed)) = 3
   \<and> (0::nat) < length [example_item1, example_item2, example_item3]
   \<and> i_author example_item1 = None
   \<and> author (parseFeedItems example_browser (Some example_feed) ! 0) = str ''Unknown''
   \<and> i_thumbnail example_item1 = None
   \<and> thumbnail (parseFeedItems example_browser (Some example_feed) ! 0) = str ''https://www.kali.org/a.png''
   \<and> i_categories example_item1 = None
   \<and> categories (parseFeedItems example_browser (Some example_feed) ! 0) = []
   \<and> source (parseFeedItems example_browser (Some example_feed) ! 0) = str ''Kali Linux''
   \<and> description (parseFeedItems example_browser (Some example_feed) ! 0) = str ''Micro Mirror & theme refresh''"
proof -
  have 1: "i_author example_item1 = None" "i_thumbnail example_item1 = None"
    "i_categories example_item1 = None"
    "enclosure_link example_item1 = Some (str ''https://www.kali.org/a.png'')"
    "i_description example_item1 = Some (str ''  Micro Mirror & theme refresh  '')"
    by (simp_all add: example_item1_def enclosure_link_def)
  have 2: "feed_title example_feed = Some (str ''Kali Linux'')"
    by (simp add: example_feed_def feed_title_def)
  have 3: "truthy_string (Some (str ''https://www.kali.org/a.png''))"
    "truthy_string (Some (str ''Kali Linux''))"
    "truthy_string (Some (str ''  Micro Mirror & theme refresh  ''))"
    by (simp_all add: truthy_string_def str_def)
  have 4: "cleanText example_browser t = t" for t
    by (simp add: cleanText_def example_platform)
  note T = parseFeedItems_one_article_per_item[OF example_feed_items, of example_browser]
  from T have len: "length (parseFeedItems example_browser (Some example_feed)) = 3"
    by simp
  from T[THEN conjunct2, THEN spec, of 0] len
  show ?thesis
    by (simp add: example_feed_items 1 2 3 4 String_of_def trim_example)
qed

subsection \<open>The cache\<close>

lemma str_articles_neq_timestamp: "str ''timestamp'' \<noteq> str ''articles''"
  by (simp add: str_def)

lemma rss_cache_cacheArticles:
  "\<not> storage_full w \<Longrightarrow>
   rss_cache (cacheArticles B w articles) =
     Some (JObj [(str ''articles'', JArr (stringify_elements B (map article_value articles))),
                 (str ''timestamp'', JNum (clock w))])"
  by (simp add: cacheArticles_def)

lemma getCachedArticles_entry:
  assumes "rss_cache w = Some (JObj [(str ''articles'', stored), (str ''timestamp'', JNum ts)])"
  shows "getCachedArticles B F w = (if clock w - ts < updateInterval F then Some stored else js_null)"
  using assms str_articles_neq_timestamp
  by (simp add: getCachedArticles_def get_member_def timestamp_number_def)

lemma getCachedArticles_after_cacheArticles:
  assumes "\<not> storage_full w"
  shows "getCachedArticles B F ((cacheArticles B w articles)\<lparr>clock := now\<rparr>) =
           (if now - clock w < updateInterval F
            then Some (JArr (stringify_elements B (map article_value articles)))
            else js_null)"
  using getCachedArticles_entry[of "(cacheArticles B w articles)\<lparr>clock := now\<rparr>"]
    rss_cache_cacheArticles[OF assms]
  by simp

text \<open>
  C7. A batch is cached at time \<open>clock w\<close> and read at time \<open>now\<close>. When
  \<open>now - clock w\<close> is not less than \<open>updateInterval\<close> the read returns \<^verbatim>\<open>null\<close>;
  before that it returns the articles as they are stored.
\<close>

theorem getCachedArticles_expiry:
  assumes "\<not> storage_full w"
  shows "getCachedArticles B F ((cacheArticles B w articles)\<lparr>clock := now\<rparr>) =
           (if now - clock w < updateInterval F
            then Some (JArr (stringify_elements B (map article_value articles)))
            else js_null)"
  using assms by (rule getCachedArticles_after_cacheArticles)

theorem getCachedArticles_expiry_witness:
  "\<not> storage_full example_world
   \<and> getCachedArticles example_browser example_fetcher
        ((cacheArticles example_browser example_world [example_article])\<lparr>clock := 1709503599999\<rparr>)
       = Some (JArr (stringify_elements example_browser (map article_value [example_article])))
   \<and> getCachedArticles example_browser example_fetcher
        ((cacheArticles example_browser example_world [example_article])\<lparr>clock := 1709503600000\<rparr>)
       = js_null"
  using getCachedArticles_expiry[OF example_world_simps(3), where B = example_browser
      and F = example_fetcher and articles = "[example_article]" and now = 1709503599999]
    getCachedArticles_expiry[OF example_world_simps(3), where B = example_browser
      and F = example_fetcher and articles = "[example_article]" and now = 1709503600000]
  by (simp add: example_world_simps example_fetcher_simps)

lemma parse_stringify_article: "JSON_parse (the (JSON_stringify B (article_value a))) \<noteq> article_value a"
  by (cases "link a"; cases "pubDate a") (simp_all add: article_value_def)

lemma round_trip_differs:
  assumes "articles \<noteq> []" "\<not> storage_full w" "0 < updateInterval F"
  shows "map_option JSON_parse (getCachedArticles B F (cacheArticles B w articles))
           \<noteq> Some (Arr (map article_value articles))"
proof -
  obtain a as where as: "articles = a # as" using assms(1) by (cases articles) auto
  have "cacheArticles B w articles = (cacheArticles B w articles)\<lparr>clock := clock w\<rparr>"
    by (simp add: cacheArticles_def)
  then have "getCachedArticles B F (cacheArticles B w articles)
           = Some (JArr (stringify_elements B (map article_value articles)))"
    using getCachedArticles_after_cacheArticles[OF assms(2), where B = B and F = F
        and articles = articles and now = "clock w"] assms(3) by simp
  moreover have "JSON_parse (the (JSON_stringify B (article_value a))) \<noteq> article_value a"
    by (rule parse_stringify_article)
  ultimately show ?thesis
    by (simp add: as article_value_def)
qed

text \<open>
  C2 does not hold of the code. \<^verbatim>\<open>JSON.stringify\<close> writes a \<^verbatim>\<open>Date\<close> as its ISO
  string (an Invalid Date as \<^verbatim>\<open>null\<close>) and \<^verbatim>\<open>JSON.parse\<close> returns the string, so
  the articles read back differ from the articles stored in \<open>pubDate\<close>, whatever the list
  (\<open>round_trip_differs\<close>). The theorem evaluates the round trip on one article.
\<close>

theorem cache_round_trip_loses_Date:
  "map_option JSON_parse
     (getCachedArticles example_browser example_fetcher
        (cacheArticles example_browser example_world [example_article]))
   \<noteq> Some (Arr [article_value example_article])"
  using round_trip_differs[of "[example_article]" example_world example_fetcher example_browser]
  by (simp add: example_world_simps example_fetcher_simps)

subsection \<open>Fetching and display\<close>

lemma collect_all_Inr:
  assumes "\<forall>r \<in> set rs. \<exists>x. r = Inr x"
  shows "\<exists>xs. collect rs = Inr xs"
  using assms
proof (induction rs rule: collect.induct)
  case 1
  then show ?case by simp
next
  case (2 e rs)
  then show ?case by simp
next
  case (3 x rs)
  then obtain xs where "collect rs = Inr xs" by auto
  then show ?case by simp
qed

lemma generateArticleHTML_dated:
  assumes "\<forall>a \<in> set articles. pubDate a \<noteq> None"
  shows "\<exists>html. generateArticleHTML B F articles = Inr html"
proof -
  have "\<exists>x. article_pieces B a = Inr x" if "pubDate a \<noteq> None" for a
    using that by (cases "pubDate a") (simp_all add: article_pieces_def)
  then have "\<forall>r \<in> set (map (article_pieces B) (take (maxArticles F) articles)). \<exists>x. r = Inr x"
    using assms by (auto dest: in_set_takeD)
  from collect_all_Inr[OF this] show ?thesis
    by (auto simp: generateArticleHTML_def generateArticleHTML_pieces_def)
qed

lemma fetchAllFeeds_successes:
  "fetchAllFeeds B F = concat (map (\<lambda>u. case fetchFeed B F u of None \<Rightarrow> [] | Some data \<Rightarrow> [data]) (feeds F))"
  unfolding fetchAllFeeds_def by (induction "feeds F") (simp_all add: comp_def map_concat)


lemma fetchFeed_failure:
  assumes "encodeURIComponent B u = Some q"
    and "fetch B (corsProxy F @ q) = NetworkError \<or> (\<exists>st b. fetch B (corsProxy F @ q) = Response st b \<and> \<not> ok st)"
  shows "fetchFeed B F u = None"
  using assms by (auto simp: fetchFeed_def)

lemma fetchFeed_success:
  assumes "encodeURIComponent B u = Some q" "fetch B (corsProxy F @ q) = Response st (JsonFeed data)" "ok st"
  shows "fetchFeed B F u = Some data"
  using assms by (simp add: fetchFeed_def)

lemma getCachedArticles_container:
  "getCachedArticles B F (w\<lparr>container_html := c\<rparr>) = getCachedArticles B F w"
  by (simp add: getCachedArticles_def split: option.splits sum.splits)

lemma container_cacheArticles:
  "container_html (cacheArticles B w articles) = container_html w"
  by (simp add: cacheArticles_def)

lemma displayArticles_fresh:
  assumes "container_html w = Some old" "\<not> truthy (getCachedArticles B F w)"
    and "fetchAllFeeds B F = fs" "fs \<noteq> []"
    and "generateArticleHTML B F (by_date (concat (map (\<lambda>fd. parseFeedItems B (Some fd)) fs))) = Inr html"
  shows "fst (displayArticles B F elapsed w) = None"
    and "container_html (snd (displayArticles B F elapsed w)) = Some html"
    and "snd (displayArticles B F elapsed w) =
           (cacheArticles B (w\<lparr>container_html := Some loading_html, clock := clock w + elapsed\<rparr>)
              (by_date (concat (map (\<lambda>fd. parseFeedItems B (Some fd)) fs))))\<lparr>container_html := Some html\<rparr>"
  using assms
  by (simp_all add: displayArticles_def Let_def getCachedArticles_container container_cacheArticles)

lemma article_pieces_valid:
  assumes "pubDate a \<noteq> None"
  shows "\<exists>s ps. article_pieces B a = Inr (Lit (ind 12 @ s) # ps)"
  using assms by (auto simp: article_pieces_def)

lemma generateArticleHTML_single:
  assumes "pubDate a \<noteq> None" "1 \<le> maxArticles F"
  shows "\<exists>t. generateArticleHTML B F [a] = Inr (0x0A # t)"
proof -
  from article_pieces_valid[OF assms(1)] obtain s ps where
    "article_pieces B a = Inr (Lit (ind 12 @ s) # ps)"
    by blast
  moreover have "take (maxArticles F) [a] = [a]" using assms(2) by (cases "maxArticles F") auto
  ultimately show ?thesis
    by (simp add: generateArticleHTML_def generateArticleHTML_pieces_def ind_def)
qed

lemma generateArticleHTML_three:
  assumes "generateArticleHTML B F [a] = Inr h1" "generateArticleHTML B F [b] = Inr h2"
    "generateArticleHTML B F [c] = Inr h3" "3 \<le> maxArticles F"
  shows "generateArticleHTML B F [a, b, c] = Inr (h1 @ h2 @ h3)"
proof -
  have 1: "take (maxArticles F) [x] = [x]" for x :: article
    using assms(4) by (cases "maxArticles F") auto
  have 3: "take (maxArticles F) [a, b, c] = [a, b, c]"
    using assms(4) by simp
  from assms(1-3) show ?thesis
    unfolding generateArticleHTML_def generateArticleHTML_pieces_def 1 3
    by (cases "article_pieces B a"; cases "article_pieces B b"; cases "article_pieces B c") auto
qed

lemma error_html_head: "\<exists>t. error_html = 0x3C # t"
  by (simp add: error_html_def str_def)

lemma three_element_list:
  assumes "mset xs = mset [a, b, c]"
  shows "\<exists>x y z. xs = [x, y, z]"
proof -
  have "length xs = 3" using assms by (metis length_Cons list.size(3) numeral_3_eq_3 size_mset)
  then show ?thesis by (auto simp: numeral_3_eq_3 length_Suc_conv)
qed

lemma displayArticles_three_items:
  assumes feeds: "feeds F = [u1, u2]"
    and first: "encodeURIComponent B u1 = Some q1" "fetch B (corsProxy F @ q1) = Response st (JsonFeed data)"
      "ok st" "items data = Some [i1, i2, i3]"
    and second: "encodeURIComponent B u2 = Some q2" "fetch B (corsProxy F @ q2) = Response 500 b"
    and dates: "\<forall>it \<in> set [i1, i2, i3]. new_Date B (i_pubDate it) \<noteq> None"
    and max: "3 \<le> maxArticles F"
    and container: "container_html w = Some old"
    and miss: "\<not> truthy (getCachedArticles B F w)"
  shows "fetchAllFeeds B F = [data]
    \<and> fst (displayArticles B F elapsed w) = None
    \<and> (\<exists>a1 a2 a3 h1 h2 h3.
          mset [a1, a2, a3] = mset (parseFeedItems B (Some data))
          \<and> generateArticleHTML B F [a1] = Inr h1
          \<and> generateArticleHTML B F [a2] = Inr h2
          \<and> generateArticleHTML B F [a3] = Inr h3
          \<and> container_html (snd (displayArticles B F elapsed w)) = Some (h1 @ h2 @ h3))
    \<and> container_html (snd (displayArticles B F elapsed w)) \<noteq> Some error_html"
proof -
  have f1: "fetchFeed B F u1 = Some data"
    using first by (simp add: fetchFeed_success)
  have "\<not> ok 500" by (simp add: ok_def)
  then have f2: "fetchFeed B F u2 = None"
    using second by (intro fetchFeed_failure) auto
  have fs: "fetchAllFeeds B F = [data]"
    by (simp add: fetchAllFeeds_successes feeds f1 f2)
  let ?parsed = "parseFeedItems B (Some data)"
  have parsed: "?parsed = [parse_item B data i1, parse_item B data i2, parse_item B data i3]"
    using first(4) by (simp add: parseFeedItems_def)
  have ms: "mset (by_date ?parsed) = mset ?parsed"
    by (simp add: by_date_def mset_js_sort)
  then obtain a1 a2 a3 where sorted: "by_date ?parsed = [a1, a2, a3]"
    using three_element_list parsed by metis
  have "\<forall>x \<in> set ?parsed. pubDate x \<noteq> None"
    using dates by (simp add: parsed parse_item_def)
  moreover have "set [a1, a2, a3] = set ?parsed"
    using ms sorted by (metis set_mset_mset)
  ultimately have "\<forall>x \<in> set [a1, a2, a3]. pubDate x \<noteq> None"
    by metis
  then have valid: "pubDate a1 \<noteq> None" "pubDate a2 \<noteq> None" "pubDate a3 \<noteq> None"
    by simp_all
  have one: "1 \<le> maxArticles F" using max by simp
  from generateArticleHTML_single[OF valid(1) one] obtain t1 where h1: "generateArticleHTML B F [a1] = Inr (0x0A # t1)" by blast
  from generateArticleHTML_single[OF valid(2) one] obtain t2 where h2: "generateArticleHTML B F [a2] = Inr (0x0A # t2)" by blast
  from generateArticleHTML_single[OF valid(3) one] obtain t3 where h3: "generateArticleHTML B F [a3] = Inr (0x0A # t3)" by blast
  have html: "generateArticleHTML B F (by_date (concat (map (\<lambda>fd. parseFeedItems B (Some fd)) [data])))
               = Inr ((0x0A # t1) @ (0x0A # t2) @ (0x0A # t3))"
    using generateArticleHTML_three[OF h1 h2 h3 max] by (simp add: sorted)
  have d1: "fst (displayArticles B F elapsed w) = None"
    by (rule displayArticles_fresh(1)[OF container miss fs _ html]) simp
  have d2: "container_html (snd (displayArticles B F elapsed w)) = Some ((0x0A # t1) @ (0x0A # t2) @ (0x0A # t3))"
    by (rule displayArticles_fresh(2)[OF container miss fs _ html]) simp
  obtain e where e: "error_html = 0x3C # e" using error_html_head by blast
  have d3: "container_html (snd (displayArticles B F elapsed w)) \<noteq> Some error_html"
    unfolding d2 e by simp
  have "mset [a1, a2, a3] = mset ?parsed" using ms sorted by simp
  with h1 h2 h3 d2 have d4: "\<exists>a1 a2 a3 h1 h2 h3.
          mset [a1, a2, a3] = mset (parseFeedItems B (Some data))
          \<and> generateArticleHTML B F [a1] = Inr h1
          \<and> generateArticleHTML B F [a2] = Inr h2
          \<and> generateArticleHTML B F [a3] = Inr h3
          \<and> container_html (snd (displayArticles B F elapsed w)) = Some (h1 @ h2 @ h3)"
    by blast
  from fs d1 d4 d3 show ?thesis by blast
qed

text \<open>
  C5. \<open>fetchAllFeeds\<close> returns, in the order of the configured feeds, the responses of
  the feeds for which \<open>fetchFeed\<close> does not return \<^verbatim>\<open>null\<close>. A network error and a
  status outside 200 to 299 make \<open>fetchFeed\<close> return \<^verbatim>\<open>null\<close>, a successful status
  with a feed as body makes it return the feed. If every feed fails the result is empty.
  With two feeds, of which the first answers with three items and the second with status
  500, \<open>fetchAllFeeds\<close> returns the one response, and \<open>displayArticles\<close> (when the
  container exists, the cache gives nothing, the dates of the items are valid and
  \<open>maxArticles\<close> is at least 3) puts the rendering of the three articles into the
  container, not the error placeholder.
\<close>

theorem fetchAllFeeds_tolerates_failures:
  "fetchAllFeeds B F
     = concat (map (\<lambda>u. case fetchFeed B F u of None \<Rightarrow> [] | Some data \<Rightarrow> [data]) (feeds F))
   \<and> (encodeURIComponent B u = Some q
        \<and> (fetch B (corsProxy F @ q) = NetworkError
            \<or> (\<exists>status b. fetch B (corsProxy F @ q) = Response status b \<and> \<not> ok status))
       \<longrightarrow> fetchFeed B F u = None)
   \<and> (encodeURIComponent B u' = Some q'
        \<and> fetch B (corsProxy F @ q') = Response status' (JsonFeed data') \<and> ok status'
       \<longrightarrow> fetchFeed B F u' = Some data')
   \<and> ((\<forall>u \<in> set (feeds F). fetchFeed B F u = None) \<longrightarrow> fetchAllFeeds B F = [])
   \<and> (feeds F = [u1, u2]
        \<and> encodeURIComponent B u1 = Some q1
        \<and> fetch B (corsProxy F @ q1) = Response st (JsonFeed data) \<and> ok st
        \<and> items data = Some [i1, i2, i3]
        \<and> encodeURIComponent B u2 = Some q2
        \<and> fetch B (corsProxy F @ q2) = Response 500 b2
        \<and> (\<forall>it \<in> set [i1, i2, i3]. new_Date B (i_pubDate it) \<noteq> None)
        \<and> 3 \<le> maxArticles F
        \<and> container_html w = Some old
        \<and> \<not> truthy (getCachedArticles B F w)
       \<longrightarrow> fetchAllFeeds B F = [data]
           \<and> fst (displayArticles B F elapsed w) = None
           \<and> (\<exists>a1 a2 a3 h1 h2 h3.
                 mset [a1, a2, a3] = mset (parseFeedItems B (Some data))
                 \<and> generateArticleHTML B F [a1] = Inr h1
                 \<and> generateArticleHTML B F [a2] = Inr h2
                 \<and> generateArticleHTML B F [a3] = Inr h3
                 \<and> container_html (snd (displayArticles B F elapsed w)) = Some (h1 @ h2 @ h3))
           \<and> container_html (snd (displayArticles B F elapsed w)) \<noteq> Some error_html)"
proof (intro conjI impI)
  show "fetchAllFeeds B F
     = concat (map (\<lambda>u. case fetchFeed B F u of None \<Rightarrow> [] | Some data \<Rightarrow> [data]) (feeds F))"
    by (rule fetchAllFeeds_successes)
next
  assume "encodeURIComponent B u = Some q
        \<and> (fetch B (corsProxy F @ q) = NetworkError
            \<or> (\<exists>status b. fetch B (corsProxy F @ q) = Response status b \<and> \<not> ok status))"
  then show "fetchFeed B F u = None"
    using fetchFeed_failure by blast
next
  assume "encodeURIComponent B u' = Some q'
        \<and> fetch B (corsProxy F @ q') = Response status' (JsonFeed data') \<and> ok status'"
  then show "fetchFeed B F u' = Some data'"
    using fetchFeed_success by blast
next
  assume "\<forall>u \<in> set (feeds F). fetchFeed B F u = None"
  then show "fetchAllFeeds B F = []"
    by (simp add: fetchAllFeeds_successes)
next
  assume a: "feeds F = [u1, u2]
        \<and> encodeURIComponent B u1 = Some q1
        \<and> fetch B (corsProxy F @ q1) = Response st (JsonFeed data) \<and> ok st
        \<and> items data = Some [i1, i2, i3]
        \<and> encodeURIComponent B u2 = Some q2
        \<and> fetch B (corsProxy F @ q2) = Response 500 b2
        \<and> (\<forall>it \<in> set [i1, i2, i3]. new_Date B (i_pubDate it) \<noteq> None)
        \<and> 3 \<le> maxArticles F
        \<and> container_html w = Some old
        \<and> \<not> truthy (getCachedArticles B F w)"
  note s = displayArticles_three_items[where elapsed = elapsed, of F u1 u2 B q1 st data i1 i2 i3 q2 b2 w old]
  from a s show "fetchAllFeeds B F = [data]" by blast
  from a s show "fst (displayArticles B F elapsed w) = None" by blast
  from a s show "\<exists>a1 a2 a3 h1 h2 h3.
                 mset [a1, a2, a3] = mset (parseFeedItems B (Some data))
                 \<and> generateArticleHTML B F [a1] = Inr h1
                 \<and> generateArticleHTML B F [a2] = Inr h2
                 \<and> generateArticleHTML B F [a3] = Inr h3
                 \<and> container_html (snd (displayArticles B F elapsed w)) = Some (h1 @ h2 @ h3)" by blast
  from a s show "container_html (snd (displayArticles B F elapsed w)) \<noteq> Some error_html" by blast
qed

theorem fetchAllFeeds_tolerates_failures_witness:
  "encodeURIComponent example_browser (str ''feedB'') = Some (str ''feedB'')
   \<and> fetch example_browser (corsProxy example_fetcher @ str ''feedB'') = Response 500 JsonNull
   \<and> \<not> ok 500
   \<and> fetchFeed example_browser example_fetcher (str ''feedB'') = None
   \<and> feeds (example_fetcher\<lparr>feeds := [str ''feedB'']\<rparr>) = [str ''feedB'']
   \<and> fetchFeed example_browser (example_fetcher\<lparr>feeds := [str ''feedB'']\<rparr>) (str ''feedB'') = None
   \<and> fetchAllFeeds example_browser (example_fetcher\<lparr>feeds := [str ''feedB'']\<rparr>) = []
   \<and> feeds example_fetcher = [str ''feedA'', str ''feedB'']
   \<and> fetch example_browser (corsProxy example_fetcher @ str ''feedA'') = Response 200 (JsonFeed example_feed)
   \<and> ok 200
   \<and> items example_feed = Some [example_item1, example_item2, example_item3]
   \<and> new_Date example_browser (i_pubDate example_item1) \<noteq> None
   \<and> new_Date example_browser (i_pubDate example_item2) \<noteq> None
   \<and> new_Date example_browser (i_pubDate example_item3) \<noteq> None
   \<and> 3 \<le> maxArticles example_fetcher
   \<and> container_html example_world = Some []
   \<and> \<not> truthy (getCachedArticles example_browser example_fetcher example_world)
   \<and> fetchFeed example_browser example_fetcher (str ''feedA'') = Some example_feed
   \<and> fetchAllFeeds example_browser example_fetcher = [example_feed]
   \<and> fst (displayArticles example_browser example_fetcher 0 example_world) = None
   \<and> container_html (snd (displayArticles example_browser example_fetcher 0 example_world))
       \<noteq> Some error_html"
proof -
  have ok: "\<not> ok 500" "ok 200" by (simp_all add: ok_def)
  have fB: "fetch example_browser (corsProxy example_fetcher @ str ''feedB'') = Response 500 JsonNull"
    and fA: "fetch example_browser (corsProxy example_fetcher @ str ''feedA'') = Response 200 (JsonFeed example_feed)"
    by (simp_all add: example_fetcher_simps example_platform)
  have fB': "fetch example_browser (corsProxy (example_fetcher\<lparr>feeds := [str ''feedB'']\<rparr>) @ str ''feedB'')
               = Response 500 JsonNull"
    using fB by simp
  have dates: "\<forall>it \<in> set [example_item1, example_item2, example_item3].
         new_Date example_browser (i_pubDate it) \<noteq> None"
    by (simp add: example_dates)
  have max: "3 \<le> maxArticles example_fetcher" by (simp add: example_fetcher_simps)
  note T1 = fetchAllFeeds_tolerates_failures[where B = example_browser and F = example_fetcher
      and u = "str ''feedB''" and q = "str ''feedB''"
      and u' = "str ''feedA''" and q' = "str ''feedA''" and status' = 200 and data' = example_feed
      and ?u1.0 = "str ''feedA''" and ?u2.0 = "str ''feedB''" and ?q1.0 = "str ''feedA''"
      and ?q2.0 = "str ''feedB''" and st = 200 and data = example_feed
      and ?i1.0 = example_item1 and ?i2.0 = example_item2 and ?i3.0 = example_item3
      and ?b2.0 = JsonNull and w = example_world and old = "[]" and elapsed = 0]
  note T2 = fetchAllFeeds_tolerates_failures[where B = example_browser
      and F = "example_fetcher\<lparr>feeds := [str ''feedB'']\<rparr>"
      and u = "str ''feedB''" and q = "str ''feedB''"]
  have none: "fetchFeed example_browser example_fetcher (str ''feedB'') = None"
    using T1 fB ok example_platform(1) by blast
  have none': "fetchFeed example_browser (example_fetcher\<lparr>feeds := [str ''feedB'']\<rparr>) (str ''feedB'') = None"
    using T2 fB' ok example_platform(1) by blast
  have some: "fetchFeed example_browser example_fetcher (str ''feedA'') = Some example_feed"
    using T1 fA ok example_platform(1) by blast
  from none' have all: "\<forall>u \<in> set (feeds (example_fetcher\<lparr>feeds := [str ''feedB'']\<rparr>)).
         fetchFeed example_browser (example_fetcher\<lparr>feeds := [str ''feedB'']\<rparr>) u = None"
    by simp
  have empty: "fetchAllFeeds example_browser (example_fetcher\<lparr>feeds := [str ''feedB'']\<rparr>) = []"
    using T2 all by blast
  have scen: "fetchAllFeeds example_browser example_fetcher = [example_feed]
     \<and> fst (displayArticles example_browser example_fetcher 0 example_world) = None
     \<and> container_html (snd (displayArticles example_browser example_fetcher 0 example_world))
       \<noteq> Some error_html"
    using T1 fA fB ok example_platform(1) example_feed_items dates max example_world_simps(1)
      example_miss example_fetcher_simps(3)
    by blast
  have feeds': "feeds (example_fetcher\<lparr>feeds := [str ''feedB'']\<rparr>) = [str ''feedB'']"
    by simp
  from dates have dates': "new_Date example_browser (i_pubDate example_item1) \<noteq> None"
    "new_Date example_browser (i_pubDate example_item2) \<noteq> None"
    "new_Date example_browser (i_pubDate example_item3) \<noteq> None"
    by simp_all
  from none some none' feeds' empty scen fA fB ok example_platform(1) example_feed_items dates' max
    example_world_simps(1) example_miss example_fetcher_simps(3)
  show ?thesis by blast
qed

text \<open>
  What \<open>displayArticles\<close> does with articles from the cache shows that the code expects
  them to come back as they were stored: the template calls \<^verbatim>\<open>toISOString\<close> on
  \<open>pubDate\<close>, which the strings from the cache do not have. A second call within
  \<open>updateInterval\<close> of a successful first one ends in a TypeError and leaves the loading
  placeholder in the container.
\<close>

lemma displayArticles_cached_throws:
  assumes "container_html w = Some old" "getCachedArticles B F w = Some (JArr (x # xs))"
    "1 \<le> maxArticles F"
  shows "displayArticles B F elapsed w = (Some TypeError, w\<lparr>container_html := Some loading_html\<rparr>)"
proof -
  have "take (maxArticles F) (x # xs) \<noteq> []"
    using assms(3) by (cases "maxArticles F") auto
  then show ?thesis
    using assms(1,2)
    by (simp add: displayArticles_def Let_def getCachedArticles_container truthy_def
        generateArticleHTML_parsed_def)
qed

lemma displayArticles_twice_throws:
  "fst (displayArticles example_browser example_fetcher 0
          (snd (displayArticles example_browser example_fetcher 0 example_world))) = Some TypeError"
proof -
  let ?B = example_browser and ?F = example_fetcher
  let ?w1 = "snd (displayArticles ?B ?F 0 example_world)"
  have ok: "\<not> ok 500" "ok 200" by (simp_all add: ok_def)
  have fB: "fetch ?B (corsProxy ?F @ str ''feedB'') = Response 500 JsonNull"
    and fA: "fetch ?B (corsProxy ?F @ str ''feedA'') = Response 200 (JsonFeed example_feed)"
    by (simp_all add: example_fetcher_simps example_platform)
  have dates: "\<forall>it \<in> set [example_item1, example_item2, example_item3].
         new_Date ?B (i_pubDate it) \<noteq> None"
    by (simp add: example_dates)
  have max: "3 \<le> maxArticles ?F" by (simp add: example_fetcher_simps)
  note s = displayArticles_three_items[where elapsed = 0, OF example_fetcher_simps(3)
      example_platform(1) fA ok(2) example_feed_items example_platform(1) fB dates max
      example_world_simps(1) example_miss]
  then obtain html where html: "container_html ?w1 = Some html" by blast
  from s have fs: "fetchAllFeeds ?B ?F = [example_feed]" by blast
  let ?arts = "by_date (parseFeedItems ?B (Some example_feed))"
  have c: "concat (map (\<lambda>fd. parseFeedItems ?B (Some fd)) [example_feed])
             = parseFeedItems ?B (Some example_feed)"
    by simp
  have ms: "mset ?arts = mset (parseFeedItems ?B (Some example_feed))"
    by (simp add: by_date_def mset_js_sort)
  then have "length ?arts = 3"
    by (metis (no_types, lifting) example_feed_items length_map mset_eq_length parseFeedItems_def
        option.simps(5) length_Cons list.size(3) numeral_3_eq_3)
  then obtain a as where arts: "?arts = a # as" by (cases ?arts) auto
  have w1: "?w1 = (cacheArticles ?B (example_world\<lparr>container_html := Some loading_html,
                      clock := clock example_world + 0\<rparr>) ?arts)\<lparr>container_html := Some html\<rparr>"
  proof -
    have "\<forall>x \<in> set (parseFeedItems ?B (Some example_feed)). pubDate x \<noteq> None"
      using dates by (simp add: parseFeedItems_def example_feed_items parse_item_fields)
    moreover have "set ?arts = set (parseFeedItems ?B (Some example_feed))"
      using ms by (metis set_mset_mset)
    ultimately have "\<forall>x \<in> set ?arts. pubDate x \<noteq> None" by metis
    from generateArticleHTML_dated[OF this]
    obtain h where h: "generateArticleHTML ?B ?F ?arts = Inr h" by blast
    have "fs \<noteq> []" if "fs = [example_feed]" for fs using that by simp
    from displayArticles_fresh(2,3)[OF example_world_simps(1) example_miss fs _ h[folded c], of 0] html
    show ?thesis by simp
  qed
  have cache: "rss_cache ?w1 = Some (JObj [(str ''articles'', JArr (stringify_elements ?B (map article_value ?arts))),
                 (str ''timestamp'', JNum 1709500000000)])"
    unfolding w1 by (simp add: cacheArticles_def example_world_simps)
  have clock: "clock ?w1 = 1709500000000"
    unfolding w1 by (simp add: cacheArticles_def example_world_simps)
  have "getCachedArticles ?B ?F ?w1 = Some (JArr (stringify_elements ?B (map article_value ?arts)))"
    using getCachedArticles_entry[OF cache, of ?B ?F] by (simp add: clock example_fetcher_simps)
  then have "getCachedArticles ?B ?F ?w1 =
      Some (JArr ((case JSON_stringify ?B (article_value a) of None \<Rightarrow> JNull | Some j \<Rightarrow> j)
                   # stringify_elements ?B (map article_value as)))"
    by (simp add: arts)
  from displayArticles_cached_throws[OF html this, of 0] max show ?thesis by simp
qed

subsection \<open>extractKeywords\<close>

lemma fst_put: "fst ` set (put k v f) = insert k (fst ` set f)"
  by (induction f) auto

lemma fst_count_word: "fst ` set (count_word w f) = insert w (fst ` set f)"
  unfolding count_word_def
  by (simp only: fst_put split: option.splits fval.splits if_splits) simp

lemma fst_fold_count_word: "fst ` set (fold count_word ws f) = set ws \<union> fst ` set f"
proof (induction ws arbitrary: f)
  case Nil
  then show ?case by simp
next
  case (Cons w ws)
  show ?case by (simp add: Cons.IH fst_count_word)
qed

lemma extractKeywords_subset: "set (extractKeywords text k) \<subseteq> set (keyword_words text)"
proof -
  have "set (js_sort most_frequent_first (keyword_frequency text)) = set (keyword_frequency text)"
    using mset_js_sort by (metis set_mset_mset)
  then have "set (take (keyword_count k) (js_sort most_frequent_first (keyword_frequency text)))
          \<subseteq> set (keyword_frequency text)"
    using set_take_subset by metis
  then have "set (extractKeywords text k) \<subseteq> fst ` set (keyword_frequency text)"
    unfolding extractKeywords_def by auto
  then show ?thesis
    by (simp add: keyword_frequency_def fst_fold_count_word)
qed

lemma match_words_letters:
  "w \<in> set (match_words prev s) \<Longrightarrow> 4 \<le> length w \<and> (\<forall>c \<in> set w. is_az c)"
proof (induction prev s rule: match_words.induct)
  case (1 prev)
  then show ?case by simp
next
  case (2 prev c cs)
  show ?case
  proof (cases "\<not> prev \<and> is_az c \<and> 4 \<le> Suc (length (takeWhile is_az cs))
         \<and> (case dropWhile is_az cs of [] \<Rightarrow> True | d # ds \<Rightarrow> \<not> is_word d)")
    case True
    then have m: "match_words prev (c # cs) = (c # takeWhile is_az cs) # match_words True (dropWhile is_az cs)"
      by simp
    show ?thesis
    proof (cases "w = c # takeWhile is_az cs")
      case w: True
      have "\<forall>x \<in> set (takeWhile is_az cs). is_az x"
        by (auto dest: set_takeWhileD)
      with True w show ?thesis by simp
    next
      case False
      with "2.prems" m have "w \<in> set (match_words True (dropWhile is_az cs))" by simp
      then show ?thesis by (rule "2.IH"(1)[OF True])
    qed
  next
    case False
    then have "match_words prev (c # cs) = match_words (is_word c) cs"
      by (simp only: match_words.simps if_False)
    with "2.prems" have "w \<in> set (match_words (is_word c) cs)" by simp
    then show ?thesis by (rule "2.IH"(2)[OF False])
  qed
qed

lemma keyword_words_example:
  "keyword_words (str ''constructor beta beta'') = [str ''constructor'', str ''beta'', str ''beta'']"
  by (simp add: keyword_words_def str_def toLowerCase_def lower_unit_def is_az_def is_word_def commonWords_def)

lemma keyword_frequency_example:
  "keyword_frequency (str ''constructor beta beta'') =
     [(str ''constructor'', Text (str ''function Object() { [native code] }1'')), (str ''beta'', Count 2)]"
  unfolding keyword_frequency_def keyword_words_example
  by (simp add: count_word_def inherited_text_def str_def)

lemma extractKeywords_words:
  "length (extractKeywords text k) \<le> keyword_count k"
  "w \<in> set (extractKeywords text k) \<Longrightarrow>
     w \<notin> set commonWords \<and> 4 \<le> length w \<and> (\<forall>c \<in> set w. is_az c)"
proof -
  show "length (extractKeywords text k) \<le> keyword_count k"
    by (simp add: extractKeywords_def)
  assume "w \<in> set (extractKeywords text k)"
  then have "w \<in> set (keyword_words text)"
    using extractKeywords_subset by blast
  then show "w \<notin> set commonWords \<and> 4 \<le> length w \<and> (\<forall>c \<in> set w. is_az c)"
    using match_words_letters by (auto simp: keyword_words_def)
qed

text \<open>
  Without the word \<^verbatim>\<open>constructor\<close> the function does what it is meant to do: the words
  come in the order of non-increasing frequency, and words of equal frequency in the order
  in which they are first encountered.
\<close>

lemma first_occurrences_snoc:
  "first_occurrences (ps @ [w]) = (if w \<in> set ps then first_occurrences ps else first_occurrences ps @ [w])"
  by (simp add: first_occurrences_def)

lemma first_occurrences_set: "set (first_occurrences ps) = set ps" "distinct (first_occurrences ps)"
  by (simp_all add: first_occurrences_def)

lemma map_of_table:
  "map_of (map (\<lambda>k. (k, g k)) ks) w = (if w \<in> set ks then Some (g w) else None)"
  by (induction ks) auto

lemma put_present:
  "distinct ks \<Longrightarrow> w \<in> set ks \<Longrightarrow>
   put w v (map (\<lambda>k. (k, g k)) ks) = map (\<lambda>k. (k, if k = w then v else g k)) ks"
  by (induction ks) auto

lemma put_absent: "k \<notin> fst ` set f \<Longrightarrow> put k v f = f @ [(k, v)]"
  by (induction f) auto

lemma count_word_table:
  assumes "w \<noteq> str ''constructor''"
  shows "count_word w (count_table ps) = count_table (ps @ [w])"
proof (cases "w \<in> set ps")
  case True
  then have "count_word w (count_table ps) = put w (Count (count_list ps w + 1)) (count_table ps)"
    by (simp add: count_word_def count_table_def map_of_table first_occurrences_set)
  also have "\<dots> = map (\<lambda>k. (k, if k = w then Count (count_list ps w + 1) else Count (count_list ps k)))
                      (first_occurrences ps)"
    using True by (simp add: count_table_def put_present first_occurrences_set)
  also have "\<dots> = count_table (ps @ [w])"
    using True by (simp add: count_table_def first_occurrences_snoc)
  finally show ?thesis .
next
  case False
  then have "count_word w (count_table ps) = put w (Count 1) (count_table ps)"
    using assms
    by (simp add: count_word_def count_table_def map_of_table first_occurrences_set inherited_text_def)
  also have "\<dots> = count_table ps @ [(w, Count 1)]"
    using False by (intro put_absent) (auto simp: count_table_def first_occurrences_set)
  also have "\<dots> = count_table (ps @ [w])"
    using False by (auto simp: count_table_def first_occurrences_snoc first_occurrences_set)
  finally show ?thesis .
qed

lemma fold_count_word_table:
  assumes "str ''constructor'' \<notin> set ws"
  shows "fold count_word ws (count_table ps) = count_table (ps @ ws)"
  using assms
proof (induction ws arbitrary: ps)
  case Nil
  then show ?case by simp
next
  case (Cons w ws)
  then have "w \<noteq> str ''constructor''" by auto
  then have "fold count_word (w # ws) (count_table ps) = fold count_word ws (count_table (ps @ [w]))"
    by (simp add: count_word_table)
  also have "\<dots> = count_table ((ps @ [w]) @ ws)"
    using Cons by simp
  finally show ?case by simp
qed

lemma keyword_frequency_table:
  assumes "str ''constructor'' \<notin> set (keyword_words text)"
  shows "keyword_frequency text = count_table (keyword_words text)"
  using fold_count_word_table[OF assms, of "[]"]
  by (simp add: keyword_frequency_def count_table_def first_occurrences_def)

lemma insort_key_map: "insort_key f (h x) (map h xs) = map h (insort_key (\<lambda>a. f (h a)) x xs)"
  by (induction xs) auto

lemma sort_key_map: "sort_key f (map h xs) = map h (sort_key (\<lambda>a. f (h a)) xs)"
  by (induction xs) (simp_all add: insort_key_map)

lemma extractKeywords_by_frequency:
  assumes "str ''constructor'' \<notin> set (keyword_words text)"
  shows "extractKeywords text k =
           take (keyword_count k) (sort_key (\<lambda>w. - int (count_list (keyword_words text) w))
                     (first_occurrences (keyword_words text)))"
proof -
  let ?ws = "keyword_words text"
  let ?g = "\<lambda>e :: jsstring \<times> fval. fval_number (snd e)"
  have cmp: "most_frequent_first = (\<lambda>a b. minus_number (?g b) (?g a))"
    by (intro ext) (simp add: most_frequent_first_def)
  have num: "\<forall>e \<in> set (count_table ?ws). ?g e \<noteq> None"
    by (auto simp: count_table_def fval_number_def)
  have "js_sort most_frequent_first (count_table ?ws) = sort_key (\<lambda>e. - the (?g e)) (count_table ?ws)"
    unfolding cmp using num by (rule js_sort_numeric)
  also have "\<dots> = map (\<lambda>w. (w, Count (count_list ?ws w)))
                      (sort_key (\<lambda>w. - int (count_list ?ws w)) (first_occurrences ?ws))"
    by (simp add: count_table_def sort_key_map comp_def fval_number_def)
  finally show ?thesis
    by (simp add: extractKeywords_def keyword_frequency_table[OF assms] take_map comp_def)
qed

lemma extractKeywords_ordered:
  assumes "str ''constructor'' \<notin> set (keyword_words text)"
  shows "sorted_wrt (\<lambda>a b. count_list (keyword_words text) b \<le> count_list (keyword_words text) a)
           (extractKeywords text k)"
proof -
  let ?f = "\<lambda>w. - int (count_list (keyword_words text) w)"
  have "sorted (map ?f (sort_key ?f (first_occurrences (keyword_words text))))"
    by (rule sorted_sort_key)
  then have "sorted_wrt (\<lambda>a b. ?f a \<le> ?f b) (sort_key ?f (first_occurrences (keyword_words text)))"
    by (simp add: sorted_map)
  then have "sorted_wrt (\<lambda>a b. ?f a \<le> ?f b) (extractKeywords text k)"
    unfolding extractKeywords_by_frequency[OF assms] by (rule sorted_wrt_take)
  then show ?thesis by simp
qed

lemma extractKeywords_ties:
  assumes "str ''constructor'' \<notin> set (keyword_words text)" "length (keyword_words text) \<le> keyword_count k"
  shows "filter (\<lambda>w. count_list (keyword_words text) w = c) (extractKeywords text k)
           = filter (\<lambda>w. count_list (keyword_words text) w = c) (first_occurrences (keyword_words text))"
proof -
  let ?ws = "keyword_words text"
  let ?f = "\<lambda>w. - int (count_list ?ws w)"
  have "length (first_occurrences ?ws) \<le> length ?ws"
    by (metis first_occurrences_def length_remdups_leq length_rev)
  then have "extractKeywords text k = sort_key ?f (first_occurrences ?ws)"
    using assms(2) by (simp add: extractKeywords_by_frequency[OF assms(1)])
  moreover have "filter (\<lambda>w. ?f w = - int c) (sort_key ?f (first_occurrences ?ws))
                   = filter (\<lambda>w. ?f w = - int c) (first_occurrences ?ws)"
    by (rule sort_key_stable)
  ultimately show ?thesis by simp
qed

text \<open>
  C6 does not hold of the code. The result never holds a stop word or a word of fewer than
  four letters and has at most \<open>count\<close> entries (\<open>extractKeywords_words\<close>), but it is not
  always ordered by frequency: the word \<^verbatim>\<open>constructor\<close> finds the property that
  \<open>frequency\<close> inherits from \<^verbatim>\<open>Object.prototype\<close>, its count becomes a text, the
  comparator returns \<^verbatim>\<open>NaN\<close> for it, and in \<^verbatim>\<open>constructor beta beta\<close> the word that
  occurs once stays before the word that occurs twice.
\<close>

theorem extractKeywords_constructor_first:
  "extractKeywords (str ''constructor beta beta'') None = [str ''constructor'', str ''beta'']
   \<and> count_list (keyword_words (str ''constructor beta beta'')) (str ''constructor'') = 1
   \<and> count_list (keyword_words (str ''constructor beta beta'')) (str ''beta'') = 2"
  unfolding extractKeywords_def keyword_frequency_example keyword_words_example
  by (simp add: js_sort_def most_frequent_first_def minus_number_def fval_number_def
      comes_after_def str_def keyword_count_def)

subsection \<open>updateMetaTag\<close>

lemma map_of_put_attr: "map_of (put_attr k v xs) = (map_of xs)(k \<mapsto> v)"
  by (induction xs) (auto simp: fun_eq_iff)

lemma put_attr_idem: "put_attr k v (put_attr k v xs) = put_attr k v xs"
  by (induction xs) auto

lemma setAttribute_idem: "setAttribute n v (setAttribute n v e) = setAttribute n v e"
  by (simp add: setAttribute_def put_attr_idem)

lemma content_lower: "ascii_lower (str ''content'') = str ''content''"
  by (simp add: ascii_lower_def str_def)

lemma selects_setAttribute_content:
  assumes "ascii_lower A \<noteq> str ''content'' \<or> P = C"
  shows "selects A P (setAttribute (str ''content'') C e) \<longleftrightarrow> selects A P e \<or>
           (ascii_lower A = str ''content'' \<and> tag e = str ''meta'')"
  using assms
  by (auto simp: selects_def setAttribute_def map_of_put_attr content_lower split: option.splits if_splits)

lemma update_first_keeps:
  assumes "\<And>x. P x \<Longrightarrow> P (f x)" "\<And>x. P x \<Longrightarrow> f (f x) = f x"
  shows "update_first P f (update_first P f xs) = update_first P f xs"
  using assms by (induction xs) auto

lemma list_ex_update_first:
  assumes "\<And>x. P x \<Longrightarrow> P (f x)"
  shows "list_ex P (update_first P f xs) = list_ex P xs"
  using assms by (induction xs) auto

lemma update_first_append:
  "\<not> list_ex P xs \<Longrightarrow> update_first P f (xs @ ys) = xs @ update_first P f ys"
  by (induction xs) auto

lemma new_meta_selected:
  "selects A P (setAttribute (str ''content'') C (setAttribute A P new_meta))
     \<longleftrightarrow> (ascii_lower A \<noteq> str ''content'' \<or> P = C
          \<or> (str ''content'' \<in> set case_insensitive_attributes \<and> ascii_lower C = ascii_lower P))"
  by (auto simp: selects_def setAttribute_def new_meta_def map_of_put_attr content_lower)

lemma content_sensitive: "str ''content'' \<notin> set case_insensitive_attributes"
  by (simp add: case_insensitive_attributes_def str_def)

lemma updateMetaTag_idempotent:
  assumes name: "attribute_name T = A"
    and plain: "plain_name A" "plain_value P"
    and content: "C \<noteq> []" "ascii_lower A \<noteq> str ''content'' \<or> P = C"
  shows "\<exists>d'. updateMetaTag P (Some C) T d = Some d' \<and> updateMetaTag P (Some C) T d' = Some d'
          \<and> (\<not> list_ex (selects A P) (head d @ rest d) \<longrightarrow>
                (\<exists>e. d' = d\<lparr>head := head d @ [e]\<rparr> \<and> tag e = str ''meta''
                      \<and> map_of (attrs e) (ascii_lower A) = Some P
                      \<and> map_of (attrs e) (str ''content'') = Some C))"
proof -
  let ?found = "selects A P"
  let ?f = "setAttribute (str ''content'') C"
  have keep: "?found x \<Longrightarrow> ?found (?f x)" for x
    using selects_setAttribute_content[OF content(2)] by blast
  have idem: "?f (?f x) = ?f x" for x
    by (rule setAttribute_idem)
  have truthy: "truthy_string (Some C)" "String_of (Some C) = C"
    using content(1) by (simp_all add: truthy_string_def String_of_def)
  consider (head) "list_ex ?found (head d)"
    | (rest) "\<not> list_ex ?found (head d)" "list_ex ?found (rest d)"
    | (none) "\<not> list_ex ?found (head d)" "\<not> list_ex ?found (rest d)"
    by blast
  then show ?thesis
  proof cases
    case head
    let ?d' = "d\<lparr>head := update_first ?found ?f (head d)\<rparr>"
    have 1: "updateMetaTag P (Some C) T d = Some ?d'"
      using head plain truthy by (simp add: updateMetaTag_def name)
    have "list_ex ?found (head ?d')"
      using head keep by (simp add: list_ex_update_first)
    then have 2: "updateMetaTag P (Some C) T ?d' = Some ?d'"
      using plain truthy keep idem by (simp add: updateMetaTag_def name update_first_keeps)
    from 1 2 head show ?thesis by simp
  next
    case rest
    let ?d' = "d\<lparr>rest := update_first ?found ?f (rest d)\<rparr>"
    have 1: "updateMetaTag P (Some C) T d = Some ?d'"
      using rest plain truthy by (simp add: updateMetaTag_def name)
    have "list_ex ?found (rest ?d')" "\<not> list_ex ?found (head ?d')"
      using rest keep by (simp_all add: list_ex_update_first)
    then have 2: "updateMetaTag P (Some C) T ?d' = Some ?d'"
      using plain truthy keep idem by (simp add: updateMetaTag_def name update_first_keeps)
    from 1 2 rest show ?thesis by simp
  next
    case none
    let ?e = "?f (setAttribute A P new_meta)"
    let ?d' = "d\<lparr>head := head d @ [?e]\<rparr>"
    have 1: "updateMetaTag P (Some C) T d = Some ?d'"
      using none plain truthy by (simp add: updateMetaTag_def name)
    have sel: "?found ?e"
      using content(2) by (simp add: new_meta_selected)
    then have "list_ex ?found (head ?d')" by simp
    moreover have "update_first ?found ?f (head ?d') = head ?d'"
      using none(1) sel by (simp add: update_first_append idem)
    ultimately have 2: "updateMetaTag P (Some C) T ?d' = Some ?d'"
      using plain truthy by (simp add: updateMetaTag_def name)
    have 3: "tag ?e = str ''meta''" "map_of (attrs ?e) (str ''content'') = Some C"
      "map_of (attrs ?e) (ascii_lower A) = Some P"
      using content(2) by (auto simp: setAttribute_def new_meta_def map_of_put_attr content_lower)
    from 1 2 3 show ?thesis by blast
  qed
qed

lemma example_names:
  "plain_name (str ''property'')" "plain_value (str ''og:title'')"
  "plain_name (str ''content'')" "plain_value (str ''x'')"
  "ascii_lower (str ''property'') = str ''property''"
  "str ''property'' \<noteq> str ''content''" "str ''meta'' \<noteq> str ''title''" "str ''title'' \<noteq> str ''meta''"
  "str ''Kali'' \<noteq> []" "str ''y'' \<noteq> []" "str ''x'' \<noteq> str ''y''" "str ''y'' \<noteq> str ''x''"
  by (simp_all add: plain_name_def plain_value_def is_word_def ascii_lower_def str_def)

lemma attribute_name_simps:
  "attribute_name None = str ''property''" "attribute_name (Some t) = t"
  by (simp_all add: attribute_name_def)

lemma updateMetaTag_example_first:
  "updateMetaTag (str ''og:title'') (Some (str ''Kali'')) None example_document
     = Some \<lparr> head = [\<lparr>tag = str ''title'', attrs = []\<rparr>,
                       \<lparr>tag = str ''meta'',
                        attrs = [(str ''property'', str ''og:title''), (str ''content'', str ''Kali'')]\<rparr>],
              rest = [] \<rparr>"
  by (simp add: updateMetaTag_def example_document_def example_names truthy_string_def String_of_def
      selects_def setAttribute_def new_meta_def content_lower attribute_name_simps)

text \<open>
  C8, as stated, fails when the attribute that identifies the tag is \<^verbatim>\<open>content\<close> itself:
  the tag that the first call creates has the content as value of that attribute, so no
  call finds it again, and every call adds another tag.
\<close>

theorem updateMetaTag_content_attribute_counterexample:
  "updateMetaTag (str ''x'') (Some (str ''y'')) (Some (str ''content'')) example_document
     = Some \<lparr> head = [\<lparr>tag = str ''title'', attrs = []\<rparr>,
                       \<lparr>tag = str ''meta'', attrs = [(str ''content'', str ''y'')]\<rparr>],
              rest = [] \<rparr>
   \<and> updateMetaTag (str ''x'') (Some (str ''y'')) (Some (str ''content''))
        \<lparr> head = [\<lparr>tag = str ''title'', attrs = []\<rparr>,
                  \<lparr>tag = str ''meta'', attrs = [(str ''content'', str ''y'')]\<rparr>],
          rest = [] \<rparr>
     = Some \<lparr> head = [\<lparr>tag = str ''title'', attrs = []\<rparr>,
                       \<lparr>tag = str ''meta'', attrs = [(str ''content'', str ''y'')]\<rparr>,
                       \<lparr>tag = str ''meta'', attrs = [(str ''content'', str ''y'')]\<rparr>],
              rest = [] \<rparr>"
  by (simp add: updateMetaTag_def example_document_def example_names truthy_string_def String_of_def
      selects_def setAttribute_def new_meta_def content_lower content_sensitive Let_def
      attribute_name_simps)

text \<open>
  C8, amended. \<open>updateMetaTag\<close> leaves the document as it is when \<open>content\<close> is falsy.
  Otherwise, for an attribute name that is a plain identifier and not \<^verbatim>\<open>content\<close> (in
  any letter case, unless \<open>property\<close> and \<open>content\<close> are equal) and a property free of
  quotes, backslashes and line breaks: a second call with the same arguments leaves the
  document in the state the first call produced, and on a document with no matching
  \<^verbatim>\<open>meta\<close> tag the first call appends exactly one tag to the head, which carries the
  attribute/value pair and the content.
\<close>

theorem updateMetaTag_find_or_create:
  "(\<not> truthy_string content \<longrightarrow> updateMetaTag P content T d = Some d)
   \<and> (plain_name (attribute_name T) \<and> plain_value P \<and> C \<noteq> []
        \<and> (ascii_lower (attribute_name T) \<noteq> str ''content'' \<or> P = C) \<longrightarrow>
        (\<exists>d'. updateMetaTag P (Some C) T d = Some d' \<and> updateMetaTag P (Some C) T d' = Some d'
          \<and> (\<not> list_ex (selects (attribute_name T) P) (head d @ rest d) \<longrightarrow>
                (\<exists>e. d' = d\<lparr>head := head d @ [e]\<rparr> \<and> tag e = str ''meta''
                      \<and> map_of (attrs e) (ascii_lower (attribute_name T)) = Some P
                      \<and> map_of (attrs e) (str ''content'') = Some C))))"
  using updateMetaTag_idempotent[OF refl, of T P C d] by (simp add: updateMetaTag_def)

theorem updateMetaTag_find_or_create_witness:
  "\<not> truthy_string None
   \<and> updateMetaTag (str ''og:title'') None None example_document = Some example_document
   \<and> plain_name (attribute_name None) \<and> plain_value (str ''og:title'') \<and> str ''Kali'' \<noteq> []
   \<and> ascii_lower (attribute_name None) \<noteq> str ''content''
   \<and> \<not> list_ex (selects (attribute_name None) (str ''og:title''))
          (head example_document @ rest example_document)
   \<and> (\<exists>d'. updateMetaTag (str ''og:title'') (Some (str ''Kali'')) None example_document = Some d'
          \<and> updateMetaTag (str ''og:title'') (Some (str ''Kali'')) None d' = Some d'
          \<and> d' = \<lparr> head = [\<lparr>tag = str ''title'', attrs = []\<rparr>,
                       \<lparr>tag = str ''meta'',
                        attrs = [(str ''property'', str ''og:title''), (str ''content'', str ''Kali'')]\<rparr>],
                    rest = [] \<rparr>)"
proof -
  have f: "\<not> truthy_string None" by (simp add: truthy_string_def)
  have p: "plain_name (attribute_name None)"
    by (simp add: attribute_name_simps example_names)
  have n: "\<not> list_ex (selects (attribute_name None) (str ''og:title''))
             (head example_document @ rest example_document)"
    by (simp add: example_document_def selects_def example_names)
  have l: "ascii_lower (attribute_name None) \<noteq> str ''content''"
    by (simp add: attribute_name_simps example_names)
  note T = updateMetaTag_find_or_create[where content = None and P = "str ''og:title''"
      and T = None and d = example_document and C = "str ''Kali''"]
  from T f have 1: "updateMetaTag (str ''og:title'') None None example_document = Some example_document"
    by blast
  from T p example_names(2,9) l obtain d' where
    2: "updateMetaTag (str ''og:title'') (Some (str ''Kali'')) None example_document = Some d'"
    and 3: "updateMetaTag (str ''og:title'') (Some (str ''Kali'')) None d' = Some d'"
    by blast
  from 2 updateMetaTag_example_first have 4: "d' = \<lparr> head = [\<lparr>tag = str ''title'', attrs = []\<rparr>,
                       \<lparr>tag = str ''meta'',
                        attrs = [(str ''property'', str ''og:title''), (str ''content'', str ''Kali'')]\<rparr>],
                    rest = [] \<rparr>"
    by simp
  from f 1 p example_names(2,9) l n 2 3 4 show ?thesis by blast
qed

end
